theory Spec2Isabelle
  imports Complex_Main "HOL-Library.Log_Nat"
begin

section \<open>Data model\<close>

text \<open>
  The user model of the game (\<^verbatim>\<open>src/models/user.ts\<close>) and the static tables of
  \<^verbatim>\<open>src/constants\<close>. JavaScript numbers that hold counts, identifiers and gold
  amounts are modelled by the \<^typ>\<open>int\<close> they denote. The arithmetic of the source on
  them is that of IEEE 754 binary64: the operators \<^verbatim>\<open>+\<close>, \<^verbatim>\<open>-\<close>, \<^verbatim>\<open>*\<close> and
  \<^verbatim>\<open>/\<close> return the exact result rounded, and the rounding is written out. The length
  of an array is below \<open>2 ^ 32\<close>, so a difference of 1 and a length is exact.
  String-literal unions (\<^verbatim>\<open>'CITIZEN'\<close>, \<^verbatim>\<open>'HAND'\<close>,
  ...) are strings. A \<^verbatim>\<open>TypeError\<close> raised by reading a property of \<^verbatim>\<open>undefined\<close>
  is the value \<open>Inl TypeError\<close>.

  Field names follow the source; where two object types of the source share a field name
  (\<^verbatim>\<open>type\<close>, \<^verbatim>\<open>level\<close>, \<^verbatim>\<open>name\<close>, \<^verbatim>\<open>cost\<close>, \<^verbatim>\<open>goldPerTurn\<close>), or the
  name is taken (\<^verbatim>\<open>id\<close>, \<^verbatim>\<open>class\<close>, \<^verbatim>\<open>max\<close>), the field carries a prefix.
\<close>

datatype error = TypeError

text \<open>\<^verbatim>\<open>PlayerUnit\<close>: a stack of units of one type and level owned by a player.\<close>

record playerUnit =
  ptype :: string
  plevel :: int
  quantity :: int

text \<open>\<^verbatim>\<open>Unit\<close>: an entry of the \<^verbatim>\<open>UnitTypes\<close> table.\<close>

record gameUnit =
  name :: string
  utype :: string
  ulevel :: int
  bonus :: int
  cost :: int

text \<open>An entry of the \<^verbatim>\<open>Fortifications\<close> table.\<close>

record fortification =
  fort_name :: string
  levelRequirement :: int
  hitpoints :: int
  costPerRepairPoint :: int
  fort_goldPerTurn :: int
  defenseBonusPercentage :: int
  fort_cost :: int

text \<open>\<^verbatim>\<open>UserData\<close>, the record handed over by the user DAO.\<close>

record userData =
  data_id :: int
  data_displayName :: string
  data_email :: string
  data_passwordHash :: string
  data_race :: string
  data_class :: string
  data_experience :: int
  data_gold :: int
  data_goldInBank :: int
  data_fortLevel :: int
  data_fortHitpoints :: int
  data_attackTurns :: int
  data_units :: "playerUnit list"

text \<open>
  The public fields of \<^verbatim>\<open>UserModel\<close>. The private fields (\<^verbatim>\<open>modelFactory\<close>,
  \<^verbatim>\<open>daoFactory\<close>, \<^verbatim>\<open>logger\<close>) are services; what the methods ask of them is
  passed to the methods as a parameter or returned as the call made.
\<close>

record userModel =
  userId :: int
  displayName :: string
  email :: string
  passwordHash :: string
  race :: string
  playerClass :: string
  experience :: int
  gold :: int
  goldInBank :: int
  fortLevel :: int
  fortHitpoints :: int
  attackTurns :: int
  units :: "playerUnit list"

text \<open>\<^verbatim>\<open>FortHealth\<close>, the value of the \<^verbatim>\<open>fortHealth\<close> getter.\<close>

record fortHealthInfo =
  health_current :: int
  health_max :: int
  health_percentage :: int

text \<open>The fields of a bank-history entry that \<^verbatim>\<open>fetchAvailableBankDeposits\<close> reads.\<close>

record bankHistory =
  fromUserId :: int
  fromUserAccount :: string
  historyType :: string

text \<open>A write sent to the user DAO: the method called with its arguments.\<close>

datatype daoCall =
    SetGold int int
  | SetBankedGold int int
  | SetUnits int "playerUnit list"

text \<open>The lookups of the user DAO, one function per method.\<close>

record userDao =
  dao_fetchById :: "int \<Rightarrow> userData option"
  dao_fetchByEmail :: "string \<Rightarrow> userData option"

section \<open>Constants\<close>

definition mkFort ::
  "string \<Rightarrow> int \<Rightarrow> int \<Rightarrow> int \<Rightarrow> int \<Rightarrow> int \<Rightarrow> int \<Rightarrow> fortification" where
  "mkFort n lr hp cr g d c =
     \<lparr>fort_name = n, levelRequirement = lr, hitpoints = hp, costPerRepairPoint = cr,
      fort_goldPerTurn = g, defenseBonusPercentage = d, fort_cost = c\<rparr>"

text \<open>
  \<^verbatim>\<open>Fortifications\<close>: an object keyed by the fortification level, as an association list
  in key order. The columns of \<open>mkFort\<close> are name, levelRequirement, hitpoints,
  costPerRepairPoint, goldPerTurn, defenseBonusPercentage, cost.
\<close>

definition Fortifications :: "(int \<times> fortification) list" where
  "Fortifications =
    [(1, mkFort ''Manor'' 0 50 0 1000 0 0),
     (2, mkFort ''Village'' 5 100 15 2000 5 100000),
     (3, mkFort ''Town'' 10 200 35 3000 10 250000),
     (4, mkFort ''Outpost'' 15 300 75 4000 15 500000),
     (5, mkFort ''Outpost Level 2'' 20 500 125 5000 20 1000000),
     (6, mkFort ''Outpost Level 3'' 25 750 225 6000 25 2000000),
     (7, mkFort ''Stronghold'' 30 1000 325 7000 30 3000000),
     (8, mkFort ''Stronghold Level 2'' 35 1500 450 8000 35 4000000),
     (9, mkFort ''Stronghold Level 3'' 40 2000 550 9000 40 5000000),
     (10, mkFort ''Fortress'' 45 2500 675 10000 45 7500000),
     (11, mkFort ''Fortress Level 2'' 50 3000 750 11000 50 10000000),
     (12, mkFort ''Fortress Level 3'' 55 3500 875 12000 55 15000000),
     (13, mkFort ''Citadel'' 60 4000 1150 13000 60 20000000),
     (14, mkFort ''Citadel Level 2'' 65 4500 1550 14000 65 30000000),
     (15, mkFort ''Citadel Level 3'' 70 5000 1850 15000 70 40000000),
     (16, mkFort ''Castle'' 75 5500 2100 16000 75 50000000),
     (17, mkFort ''Castle Level 2'' 80 6000 2900 17000 80 75000000),
     (18, mkFort ''Castle Level 3'' 85 6500 3600 18000 85 100000000),
     (19, mkFort ''Kingdom'' 90 7000 5000 19000 90 150000000),
     (20, mkFort ''Kingdom Level 2'' 95 7500 6750 20000 95 200000000),
     (21, mkFort ''Kingdom Level 3'' 100 8000 7500 21000 100 250000000),
     (22, mkFort ''Empire'' 105 8500 8250 22000 105 300000000),
     (23, mkFort ''Empire Level 2'' 110 9000 9000 23000 110 350000000),
     (24, mkFort ''Empire Level 3'' 115 9500 9750 24000 115 400000000)]"

text \<open>\<^verbatim>\<open>Levels\<close>: level number to the experience threshold of the level.\<close>

definition Levels :: "(int \<times> int) list" where
  "Levels = [(1, 0), (2, 200), (3, 500), (4, 1000)]"

definition mkUnit :: "string \<Rightarrow> string \<Rightarrow> int \<Rightarrow> int \<Rightarrow> int \<Rightarrow> gameUnit" where
  "mkUnit n t l b c = \<lparr>name = n, utype = t, ulevel = l, bonus = b, cost = c\<rparr>"

definition UnitTypes :: "gameUnit list" where
  "UnitTypes =
    [mkUnit ''Worker'' ''WORKER'' 1 65 2000,
     mkUnit ''Soldier'' ''OFFENSE'' 1 3 1500,
     mkUnit ''Knight'' ''OFFENSE'' 2 20 10000,
     mkUnit ''Berserker'' ''OFFENSE'' 3 50 25000,
     mkUnit ''Guard'' ''DEFENSE'' 1 3 1500,
     mkUnit ''Archer'' ''DEFENSE'' 2 20 10000,
     mkUnit ''Royal Guard'' ''DEFENSE'' 3 50 25000,
     mkUnit ''Spy'' ''SPY'' 1 3 1500,
     mkUnit ''Infiltrator'' ''SPY'' 2 20 10000,
     mkUnit ''Assassin'' ''SPY'' 3 50 25000,
     mkUnit ''Sentry'' ''SENTRY'' 1 3 1500,
     mkUnit ''Sentinel'' ''SENTRY'' 2 20 10000,
     mkUnit ''Inquisitor'' ''SENTRY'' 3 50 25000]"

section \<open>JavaScript numbers\<close>

text \<open>
  JavaScript numbers are IEEE 754 binary64 values: every arithmetic operation returns
  the exact result rounded to the nearest value with a 53-bit significand, ties to the
  even significand. The values are modelled as the rationals they denote.

  \<open>binade x\<close> is the exponent \<open>e\<close> with \<open>2 ^ e \<le> x < 2 ^ (e + 1)\<close> of a positive
  \<open>x\<close>: with \<open>n / d\<close> the reduced fraction of \<open>x\<close>, the difference of the bit lengths
  of \<open>n\<close> and \<open>d\<close> is that exponent or one more. The values of exponent \<open>e\<close> are the
  multiples of \<open>2 ^ (e - 52)\<close>; below the normal range (\<open>e < - 1022\<close>) the spacing stays
  that of exponent \<open>- 1022\<close>. Overflow to \<^verbatim>\<open>Infinity\<close> (a result of \<open>2 ^ 1024\<close> or
  more) is outside the model.
\<close>

definition roundHalfEven :: "rat \<Rightarrow> int" where
  "roundHalfEven y =
     (let f = \<lfloor>y\<rfloor>; r = y - of_int f
      in if r < 1 / 2 then f else if 1 / 2 < r then f + 1 else if even f then f else f + 1)"

definition binade :: "rat \<Rightarrow> int" where
  "binade x =
     (let (n, d) = quotient_of x;
          k = int (floorlog 2 (nat n)) - int (floorlog 2 (nat d))
      in if 2 powi k \<le> x then k else k - 1)"

definition roundDouble :: "rat \<Rightarrow> rat" where
  "roundDouble x =
     (if x = 0 then 0
      else let ulp = 2 powi (max (binade \<bar>x\<bar>) (- 1022) - 52)
           in sgn x * of_int (roundHalfEven (\<bar>x\<bar> / ulp)) * ulp)"

text \<open>The operators \<^verbatim>\<open>/\<close> and \<^verbatim>\<open>*\<close> on numbers, the divisor not zero.\<close>

definition jsDivide :: "rat \<Rightarrow> rat \<Rightarrow> rat" where
  "jsDivide a b = roundDouble (a / b)"

definition jsTimes :: "rat \<Rightarrow> rat \<Rightarrow> rat" where
  "jsTimes a b = roundDouble (a * b)"

text \<open>
  The operators \<^verbatim>\<open>+\<close>, \<^verbatim>\<open>-\<close> and \<^verbatim>\<open>*\<close> on numbers that hold integers: the
  exact result, rounded. The rounded sum, difference or product of two integers is an
  integer again, so taking the floor only changes the type.
\<close>

definition numRound :: "rat \<Rightarrow> int" where
  "numRound x = \<lfloor>roundDouble x\<rfloor>"

definition numAdd :: "int \<Rightarrow> int \<Rightarrow> int" where
  "numAdd a b = numRound (of_int a + of_int b)"

definition numSub :: "int \<Rightarrow> int \<Rightarrow> int" where
  "numSub a b = numRound (of_int a - of_int b)"

definition numMul :: "int \<Rightarrow> int \<Rightarrow> int" where
  "numMul a b = numRound (of_int a * of_int b)"

text \<open>
  \<^verbatim>\<open>Number.isSafeInteger\<close>: the integers up to \<open>2 ^ 53 - 1\<close> in absolute value.
\<close>

definition safeInteger :: "int \<Rightarrow> bool" where
  "safeInteger n \<longleftrightarrow> \<bar>n\<bar> < 2 ^ 53"

section \<open>The user model\<close>

text \<open>The constructor copies the record of the DAO field by field.\<close>

definition UserModel :: "userData \<Rightarrow> userModel" where
  "UserModel d =
     \<lparr>userId = data_id d, displayName = data_displayName d, email = data_email d,
      passwordHash = data_passwordHash d, race = data_race d, playerClass = data_class d,
      experience = data_experience d, gold = data_gold d, goldInBank = data_goldInBank d,
      fortLevel = data_fortLevel d, fortHitpoints = data_fortHitpoints d,
      attackTurns = data_attackTurns d, units = data_units d\<rparr>"

text \<open>\<^verbatim>\<open>units.reduce((acc, unit) => acc + unit.quantity, 0)\<close>\<close>

definition population :: "userModel \<Rightarrow> int" where
  "population u = foldl (\<lambda>acc unit. numAdd acc (quantity unit)) 0 (units u)"

definition armySize :: "userModel \<Rightarrow> int" where
  "armySize u =
     foldl (\<lambda>acc unit. numAdd acc (quantity unit)) 0
       (filter (\<lambda>unit. ptype unit \<noteq> ''CITIZEN'' \<and> ptype unit \<noteq> ''WORKER'') (units u))"

text \<open>
  \<^verbatim>\<open>units.find((unit) => unit.type === 'CITIZEN').quantity\<close>: \<^verbatim>\<open>find\<close> yields
  \<^verbatim>\<open>undefined\<close> when no unit passes, and reading \<^verbatim>\<open>quantity\<close> of it throws.
\<close>

definition citizens :: "userModel \<Rightarrow> error + int" where
  "citizens u =
     (case find (\<lambda>unit. ptype unit = ''CITIZEN'') (units u) of
        None \<Rightarrow> Inl TypeError
      | Some unit \<Rightarrow> Inr (quantity unit))"

text \<open>
  The gold of one worker stack: the bonus of the first matching entry of \<^verbatim>\<open>UnitTypes\<close>
  times the quantity; no matching entry throws.
\<close>

definition workerGold :: "playerUnit \<Rightarrow> error + int" where
  "workerGold unit =
     (case find (\<lambda>unitType. utype unitType = ptype unit \<and> ulevel unitType = plevel unit)
             UnitTypes of
        None \<Rightarrow> Inl TypeError
      | Some unitType \<Rightarrow> Inr (numMul (bonus unitType) (quantity unit)))"

text \<open>\<^verbatim>\<open>.map(...)\<close> over the worker stacks, left to right; the first throw ends it.\<close>

fun mapWorkerGold :: "playerUnit list \<Rightarrow> error + int list" where
  "mapWorkerGold [] = Inr []"
| "mapWorkerGold (unit # rest) =
     (case workerGold unit of
        Inl e \<Rightarrow> Inl e
      | Inr g \<Rightarrow> (case mapWorkerGold rest of Inl e \<Rightarrow> Inl e | Inr gs \<Rightarrow> Inr (g # gs)))"

definition goldPerTurn :: "userModel \<Rightarrow> error + int" where
  "goldPerTurn u =
     (let workerUnits = filter (\<lambda>units. ptype units = ''WORKER'') (units u)
      in case mapWorkerGold workerUnits of
           Inl e \<Rightarrow> Inl e
         | Inr golds \<Rightarrow>
             (let workerGoldPerTurn = foldl (\<lambda>acc gold. numAdd acc gold) 0 golds
              in case map_of Fortifications (fortLevel u) of
                   None \<Rightarrow> Inl TypeError
                 | Some fort \<Rightarrow> Inr (numAdd workerGoldPerTurn (fort_goldPerTurn fort))))"

definition offense :: "userModel \<Rightarrow> int" where
  "offense u = 0"

text \<open>
  \<^verbatim>\<open>level\<close>: experience 0 is level 1. Otherwise the thresholds strictly below the
  experience are sorted in descending order and the first is taken; the level is the key
  of the first entry of \<^verbatim>\<open>Levels\<close> with that threshold. With no threshold below the
  experience, \<^verbatim>\<open>possibleLevels[0]\<close> is \<^verbatim>\<open>undefined\<close>, no entry equals it, and
  indexing the result of \<^verbatim>\<open>find\<close> throws.
\<close>

definition level :: "userModel \<Rightarrow> error + int" where
  "level u =
     (if experience u = 0 then Inr 1
      else
        let possibleLevels =
              rev (sort (filter (\<lambda>levelXp. experience u > levelXp) (map snd Levels)))
        in case possibleLevels of
             [] \<Rightarrow> Inl TypeError
           | xpOfCurrentLevel # _ \<Rightarrow>
               (case find (\<lambda>(_, xp). xp = xpOfCurrentLevel) Levels of
                  None \<Rightarrow> Inl TypeError
                | Some (k, _) \<Rightarrow> Inr k))"

text \<open>
  \<^verbatim>\<open>xpToNextLevel\<close>: \<^verbatim>\<open>Levels[currentLevel + 1] - experience\<close>. Beyond the last level
  the lookup is \<^verbatim>\<open>undefined\<close> and the difference is \<^verbatim>\<open>NaN\<close>, here \<open>None\<close>.
\<close>

definition xpToNextLevel :: "userModel \<Rightarrow> error + int option" where
  "xpToNextLevel u =
     (case level u of
        Inl e \<Rightarrow> Inl e
      | Inr currentLevel \<Rightarrow>
          Inr (case map_of Levels (currentLevel + 1) of
                 None \<Rightarrow> None
               | Some nextLevelXP \<Rightarrow> Some (numSub nextLevelXP (experience u))))"

definition availableUnitTypes :: "userModel \<Rightarrow> gameUnit list" where
  "availableUnitTypes u = filter (\<lambda>unitType. ulevel unitType = 1) UnitTypes"

definition maximumBankDeposits :: "userModel \<Rightarrow> int" where
  "maximumBankDeposits u = 1"

text \<open>
  \<^verbatim>\<open>fetchAvailableBankDeposits\<close>: the history of the last 24 hours is what
  \<^verbatim>\<open>bankHistory.fetchToUserHistoryForLastTwentyFourHours\<close> returns for this user; that
  function is the first parameter.
\<close>

definition fetchAvailableBankDeposits ::
  "(userModel \<Rightarrow> bankHistory list) \<Rightarrow> userModel \<Rightarrow> int" where
  "fetchAvailableBankDeposits fetchToUserHistoryForLastTwentyFourHours u =
     (let depositsUsed = fetchToUserHistoryForLastTwentyFourHours u;
          bankingActions =
            filter (\<lambda>history. fromUserId history = userId u
                       \<and> fromUserAccount history = ''HAND''
                       \<and> historyType history = ''PLAYER_TRANSFER'') depositsUsed
      in maximumBankDeposits u - int (length bankingActions))"

text \<open>
  The four gold methods update one field with \<^verbatim>\<open>+=\<close> or \<^verbatim>\<open>-=\<close> and send the new
  value to the DAO. The result is the user after the call and the DAO call made.
\<close>

definition addGold :: "int \<Rightarrow> userModel \<Rightarrow> userModel \<times> daoCall" where
  "addGold amount u =
     (let u' = u\<lparr>gold := numAdd (gold u) amount\<rparr> in (u', SetGold (userId u') (gold u')))"

definition subtractGold :: "int \<Rightarrow> userModel \<Rightarrow> userModel \<times> daoCall" where
  "subtractGold amount u =
     (let u' = u\<lparr>gold := numSub (gold u) amount\<rparr> in (u', SetGold (userId u') (gold u')))"

definition addBankedGold :: "int \<Rightarrow> userModel \<Rightarrow> userModel \<times> daoCall" where
  "addBankedGold amount u =
     (let u' = u\<lparr>goldInBank := numAdd (goldInBank u) amount\<rparr>
      in (u', SetBankedGold (userId u') (goldInBank u')))"

definition subtractBankedGold :: "int \<Rightarrow> userModel \<Rightarrow> userModel \<times> daoCall" where
  "subtractBankedGold amount u =
     (let u' = u\<lparr>goldInBank := numSub (goldInBank u) amount\<rparr>
      in (u', SetBankedGold (userId u') (goldInBank u')))"

text \<open>
  \<open>updateFirst P f xs\<close> is the list after the assignment through the object that
  \<^verbatim>\<open>xs.find(P)\<close> returns: the first element that passes \<open>P\<close> is replaced by its
  update, the others stay.
\<close>

fun updateFirst :: "('a \<Rightarrow> bool) \<Rightarrow> ('a \<Rightarrow> 'a) \<Rightarrow> 'a list \<Rightarrow> 'a list" where
  "updateFirst P f [] = []"
| "updateFirst P f (x # xs) = (if P x then f x # xs else x # updateFirst P f xs)"

text \<open>
  \<^verbatim>\<open>trainNewUnits\<close>. The unit objects of \<^verbatim>\<open>this.units\<close> are updated in place, so
  the list is followed through the three steps of the source:
  \<^item> the total of the new quantities is subtracted from the first \<^verbatim>\<open>CITIZEN\<close> unit
    (no such unit: \<^verbatim>\<open>citizenUnits\<close> is \<^verbatim>\<open>undefined\<close> and the assignment throws,
    before anything is changed);
  \<^item> every unit for which \<^verbatim>\<open>newUnits.find\<close> returns an entry of its type and level
    (\<^verbatim>\<open>unitsToUpdate\<close>) has the quantity of that entry, the first that matches, added;
    \<^verbatim>\<open>Object.assign(unitsToUpdate, this.units)\<close> then holds the elements of
    \<^verbatim>\<open>this.units\<close> index by index, that is the same objects in the same order;
  \<^item> the entries of \<^verbatim>\<open>newUnits\<close> that match no unit are appended.
  The unit objects of a user are distinct objects, none of them an element of
  \<^verbatim>\<open>newUnits\<close>. The result is the user after the call and the write to the DAO.
\<close>

definition trainNewUnits :: "playerUnit list \<Rightarrow> userModel \<Rightarrow> error + userModel \<times> daoCall" where
  "trainNewUnits newUnits u =
     (let totalNewUnits = foldl (\<lambda>acc unit. numAdd acc (quantity unit)) 0 newUnits
      in case find (\<lambda>unit. ptype unit = ''CITIZEN'') (units u) of
           None \<Rightarrow> Inl TypeError
         | Some _ \<Rightarrow>
             (let subtracted =
                    updateFirst (\<lambda>unit. ptype unit = ''CITIZEN'')
                      (\<lambda>citizenUnits.
                         citizenUnits\<lparr>quantity :=
                           numSub (quantity citizenUnits) totalNewUnits\<rparr>)
                      (units u);
                  updated =
                    map (\<lambda>unit.
                           case find (\<lambda>newUnit. ptype newUnit = ptype unit
                                          \<and> plevel newUnit = plevel unit) newUnits of
                             None \<Rightarrow> unit
                           | Some newUnit \<Rightarrow>
                               unit\<lparr>quantity :=
                                 numAdd (quantity unit) (quantity newUnit)\<rparr>)
                      subtracted;
                  newUnitsToAdd =
                    filter (\<lambda>newUnit.
                              find (\<lambda>unit. ptype unit = ptype newUnit
                                        \<and> plevel unit = plevel newUnit) updated = None)
                      newUnits;
                  units' = updated @ newUnitsToAdd
              in Inr (u\<lparr>units := units'\<rparr>, SetUnits (userId u) units')))"

text \<open>
  The static fetchers: \<^verbatim>\<open>if (!user) return null\<close>, otherwise a new model of the
  record. \<^verbatim>\<open>null\<close> is \<open>None\<close>.
\<close>

definition fetchById :: "userDao \<Rightarrow> int \<Rightarrow> userModel option" where
  "fetchById daoFactory i =
     (case dao_fetchById daoFactory i of
        None \<Rightarrow> None
      | Some user \<Rightarrow> Some (UserModel user))"

definition fetchByEmail :: "userDao \<Rightarrow> string \<Rightarrow> userModel option" where
  "fetchByEmail daoFactory e =
     (case dao_fetchByEmail daoFactory e of
        None \<Rightarrow> None
      | Some user \<Rightarrow> Some (UserModel user))"

subsection \<open>Fort health\<close>

text \<open>
  \<^verbatim>\<open>fortHealth\<close>: \<^verbatim>\<open>Fortifications[this.fortLevel]\<close> is \<^verbatim>\<open>undefined\<close> when the fort
  level is not a key, and reading \<^verbatim>\<open>hitpoints\<close> of it throws. The hitpoints of every
  entry of the table are positive, so the divisor is never zero. The percentage is
  \<^verbatim>\<open>Math.floor((this.fortHitpoints / hitpoints) * 100)\<close>.
\<close>

definition fortHealth :: "userModel \<Rightarrow> error + fortHealthInfo" where
  "fortHealth u =
     (case map_of Fortifications (fortLevel u) of
        None \<Rightarrow> Inl TypeError
      | Some fort \<Rightarrow>
          Inr \<lparr>health_current = fortHitpoints u,
               health_max = hitpoints fort,
               health_percentage =
                 \<lfloor>jsTimes (jsDivide (of_int (fortHitpoints u)) (of_int (hitpoints fort)))
                    100\<rfloor>\<rparr>)"

subsection \<open>The overview controller\<close>

text \<open>
  What \<^verbatim>\<open>overviewPage\<close> hands to the template of the user: the values before
  \<^verbatim>\<open>Intl.NumberFormat\<close> writes them as text. The entries of the view that do not come
  from the user (the layout, the sidebar data and the statistics fixed at 0) are left
  out.
\<close>

record overviewView =
  view_displayName :: string
  view_race :: string
  view_class :: string
  view_attackTurns :: int
  view_population :: int
  view_armySize :: int
  view_citizens :: int
  view_experience :: int
  view_level :: int
  view_xpToNextLevel :: "int option"
  view_fortHealth :: fortHealthInfo
  view_gold :: int
  view_goldPerTurn :: int
  view_goldInBank :: int

text \<open>
  The outcome of the controller: a bare status, a rendered page, or the exception of a
  getter that threw while the view was built.
\<close>

datatype response =
    SendStatus int
  | Render string overviewView
  | Threw error

text \<open>
  \<^verbatim>\<open>overviewPage\<close> fetches the user of id 1; \<^verbatim>\<open>null\<close> is answered with status 404.
  Otherwise the entries of the view are computed in the order of the source, the first
  getter that throws ending the request.
\<close>

definition overviewPage :: "userDao \<Rightarrow> response" where
  "overviewPage daoFactory =
     (case fetchById daoFactory 1 of
        None \<Rightarrow> SendStatus 404
      | Some user \<Rightarrow>
          (case citizens user of Inl e \<Rightarrow> Threw e | Inr c \<Rightarrow>
           case level user of Inl e \<Rightarrow> Threw e | Inr l \<Rightarrow>
           case xpToNextLevel user of Inl e \<Rightarrow> Threw e | Inr x \<Rightarrow>
           case fortHealth user of Inl e \<Rightarrow> Threw e | Inr h \<Rightarrow>
           case goldPerTurn user of Inl e \<Rightarrow> Threw e | Inr g \<Rightarrow>
             Render ''page/main/overview''
               \<lparr>view_displayName = displayName user, view_race = race user,
                view_class = playerClass user, view_attackTurns = attackTurns user,
                view_population = population user, view_armySize = armySize user,
                view_citizens = c, view_experience = experience user, view_level = l,
                view_xpToNextLevel = x, view_fortHealth = h, view_gold = gold user,
                view_goldPerTurn = g, view_goldInBank = goldInBank user\<rparr>))"

section \<open>Example data\<close>

definition exampleUser :: userModel where
  "exampleUser =
     \<lparr>userId = 1, displayName = ''Commander'', email = ''commander@example.com'',
      passwordHash = ''$2b$10$hash'', race = ''HUMAN'', playerClass = ''FIGHTER'',
      experience = 200, gold = 100, goldInBank = 0, fortLevel = 1, fortHitpoints = 29,
      attackTurns = 10,
      units = [\<lparr>ptype = ''CITIZEN'', plevel = 1, quantity = 10\<rparr>,
               \<lparr>ptype = ''WORKER'', plevel = 1, quantity = 4\<rparr>]\<rparr>"

definition exampleData :: userData where
  "exampleData =
     \<lparr>data_id = 1, data_displayName = ''Commander'',
      data_email = ''commander@example.com'', data_passwordHash = ''$2b$10$hash'',
      data_race = ''HUMAN'', data_class = ''FIGHTER'', data_experience = 200,
      data_gold = 100, data_goldInBank = 0, data_fortLevel = 1, data_fortHitpoints = 29,
      data_attackTurns = 10,
      data_units = [\<lparr>ptype = ''CITIZEN'', plevel = 1, quantity = 10\<rparr>,
                    \<lparr>ptype = ''WORKER'', plevel = 1, quantity = 4\<rparr>]\<rparr>"

text \<open>The same user with one stack of \<open>2 ^ 53 - 1\<close> level-1 workers.\<close>

definition hugeStackUser :: userModel where
  "hugeStackUser =
     exampleUser\<lparr>units := [\<lparr>ptype = ''WORKER'', plevel = 1,
                              quantity = 9007199254740991\<rparr>]\<rparr>"

text \<open>The same user with \<open>2 ^ 53 - 1\<close> gold.\<close>

definition richUser :: userModel where
  "richUser = exampleUser\<lparr>gold := 9007199254740991\<rparr>"

text \<open>A DAO that holds the one record, and one that holds none.\<close>

definition exampleDao :: userDao where
  "exampleDao =
     \<lparr>dao_fetchById = (\<lambda>i. if i = 1 then Some exampleData else None),
      dao_fetchByEmail =
        (\<lambda>e. if e = ''commander@example.com'' then Some exampleData else None)\<rparr>"

definition emptyDao :: userDao where
  "emptyDao = \<lparr>dao_fetchById = (\<lambda>i. None), dao_fetchByEmail = (\<lambda>e. None)\<rparr>"

text \<open>A training order that names the level-1 worker twice.\<close>

definition exampleOrder :: "playerUnit list" where
  "exampleOrder =
     [\<lparr>ptype = ''WORKER'', plevel = 1, quantity = 1\<rparr>,
      \<lparr>ptype = ''WORKER'', plevel = 1, quantity = 2\<rparr>]"

section \<open>The specification's own words\<close>

text \<open>
  The level as the specification words it: the greatest level number of \<open>Levels\<close>
  whose threshold is at most the experience.
\<close>

definition greatestLevelUpTo :: "int \<Rightarrow> int" where
  "greatestLevelUpTo xp = Max (set (map fst (filter (\<lambda>(k, levelXp). levelXp \<le> xp) Levels)))"

text \<open>The public fields of a model equal the fields of a record of the DAO.\<close>

definition sameFields :: "userData \<Rightarrow> userModel \<Rightarrow> bool" where
  "sameFields d m \<longleftrightarrow>
     userId m = data_id d \<and> displayName m = data_displayName d \<and>
     email m = data_email d \<and> passwordHash m = data_passwordHash d \<and>
     race m = data_race d \<and> playerClass m = data_class d \<and>
     experience m = data_experience d \<and> gold m = data_gold d \<and>
     goldInBank m = data_goldInBank d \<and> fortLevel m = data_fortLevel d \<and>
     fortHitpoints m = data_fortHitpoints d \<and> attackTurns m = data_attackTurns d \<and>
     units m = data_units d"

text \<open>
  The type and level of a unit: what \<^verbatim>\<open>trainNewUnits\<close> compares units and entries of
  an order by.
\<close>

definition unitKey :: "playerUnit \<Rightarrow> string \<times> int" where
  "unitKey unit = (ptype unit, plevel unit)"

text \<open>
  What an order adds to a unit in \<^verbatim>\<open>trainNewUnits\<close>: the weight (the quantity, or
  its absolute value) of the first entry of the unit's type and level, nothing when
  there is none.
\<close>

definition gain :: "(playerUnit \<Rightarrow> int) \<Rightarrow> playerUnit list \<Rightarrow> playerUnit \<Rightarrow> int" where
  "gain w newUnits unit =
     (case find (\<lambda>newUnit. ptype newUnit = ptype unit \<and> plevel newUnit = plevel unit)
             newUnits of
        None \<Rightarrow> 0
      | Some newUnit \<Rightarrow> w newUnit)"

text \<open>
  The units after a training in exact arithmetic: the first \<^verbatim>\<open>CITIZEN\<close> unit pays
  the total of the order, every unit receives its gain, and the entries of the order of
  a type and level that no unit has are appended.
\<close>

definition trainedUnits :: "playerUnit list \<Rightarrow> playerUnit list \<Rightarrow> playerUnit list" where
  "trainedUnits newUnits us =
     map (\<lambda>unit. unit\<lparr>quantity := quantity unit + gain quantity newUnits unit\<rparr>)
       (updateFirst (\<lambda>unit. ptype unit = ''CITIZEN'')
          (\<lambda>citizenUnits.
             citizenUnits\<lparr>quantity := quantity citizenUnits - (\<Sum>n\<leftarrow>newUnits. quantity n)\<rparr>)
          us)
     @ filter (\<lambda>n. unitKey n \<notin> unitKey ` set us) newUnits"

text \<open>The frame of the gold methods: every field but one is left as it was.\<close>

definition sameButGold :: "userModel \<Rightarrow> userModel \<Rightarrow> bool" where
  "sameButGold u u' \<longleftrightarrow>
     userId u' = userId u \<and> displayName u' = displayName u \<and> email u' = email u \<and>
     passwordHash u' = passwordHash u \<and> race u' = race u \<and>
     playerClass u' = playerClass u \<and> experience u' = experience u \<and>
     goldInBank u' = goldInBank u \<and> fortLevel u' = fortLevel u \<and>
     fortHitpoints u' = fortHitpoints u \<and> attackTurns u' = attackTurns u \<and>
     units u' = units u"

definition sameButGoldInBank :: "userModel \<Rightarrow> userModel \<Rightarrow> bool" where
  "sameButGoldInBank u u' \<longleftrightarrow>
     userId u' = userId u \<and> displayName u' = displayName u \<and> email u' = email u \<and>
     passwordHash u' = passwordHash u \<and> race u' = race u \<and>
     playerClass u' = playerClass u \<and> experience u' = experience u \<and>
     gold u' = gold u \<and> fortLevel u' = fortLevel u \<and>
     fortHitpoints u' = fortHitpoints u \<and> attackTurns u' = attackTurns u \<and>
     units u' = units u"

section \<open>Properties of the user model\<close>

subsection \<open>Rounding to binary64\<close>

text \<open>
  \<open>binade\<close> is the exponent of its argument, and the only one; the rounding of a
  value of the normal range is then a rounding of integers.
\<close>

lemma floorlog2_bounds_rat:
  assumes "0 < (n::int)"
  shows "(2::rat) ^ (floorlog 2 (nat n) - 1) \<le> of_int n" "of_int n < (2::rat) ^ floorlog 2 (nat n)"
    "1 \<le> floorlog 2 (nat n)"
proof -
  have pos: "0 < nat n" using assms by simp
  from floorlog_bounds [OF pos, of 2]
  have b: "2 ^ (floorlog 2 (nat n) - 1) \<le> nat n" "nat n < 2 ^ floorlog 2 (nat n)"
    by simp_all
  have "int (2 ^ (floorlog 2 (nat n) - 1)) \<le> n" using b(1) assms by linarith
  then have "(of_int (int (2 ^ (floorlog 2 (nat n) - 1))) :: rat) \<le> of_int n"
    by (simp only: of_int_le_iff)
  then show "(2::rat) ^ (floorlog 2 (nat n) - 1) \<le> of_int n" by simp
  have "n < int (2 ^ floorlog 2 (nat n))" using b(2) assms by linarith
  then have "(of_int n :: rat) < of_int (int (2 ^ floorlog 2 (nat n)))"
    by (simp only: of_int_less_iff)
  then show "of_int n < (2::rat) ^ floorlog 2 (nat n)" by simp
  show "1 \<le> floorlog 2 (nat n)"
    using pos by (simp add: floorlog_def)
qed

lemma binade_bounds:
  assumes "0 < x"
  shows "2 powi binade x \<le> x \<and> x < 2 powi (binade x + 1)"
proof -
  obtain n d where q: "quotient_of x = (n, d)" by (cases "quotient_of x")
  have d: "0 < d" using q by (rule quotient_of_denom_pos)
  have x: "x = of_int n / of_int d" using q by (rule quotient_of_div)
  have n: "0 < n" using assms d x by (simp add: zero_less_divide_iff)
  define bn where "bn = floorlog 2 (nat n)"
  define bd where "bd = floorlog 2 (nat d)"
  define k where "k = int bn - int bd"
  note nb = floorlog2_bounds_rat [OF n, folded bn_def]
  note db = floorlog2_bounds_rat [OF d, folded bd_def]
  have dpos: "(0::rat) < of_int d" using d by simp
  have up: "x < 2 powi (k + 1)"
  proof -
    have "x * 2 ^ (bd - 1) \<le> x * of_int d"
      using db(1) assms by (simp add: mult_left_mono)
    also have "\<dots> = of_int n" using x dpos by simp
    also have "\<dots> < 2 ^ bn" by (rule nb(2))
    finally have "x < 2 ^ bn / 2 ^ (bd - 1)"
      by (simp add: pos_less_divide_eq)
    also have "\<dots> = 2 powi (int bn - int (bd - 1))"
      by (simp add: power_int_diff)
    also have "int bn - int (bd - 1) = k + 1"
      using db(3) by (simp add: k_def)
    finally show ?thesis .
  qed
  have lo: "2 powi (k - 1) \<le> x"
  proof -
    have "(2::rat) ^ (bn - 1) \<le> of_int n" by (rule nb(1))
    also have "\<dots> = x * of_int d" using x dpos by simp
    also have "\<dots> \<le> x * 2 ^ bd"
      using db(2) assms by (simp add: mult_left_mono)
    finally have "(2::rat) ^ (bn - 1) / 2 ^ bd \<le> x"
      by (simp add: pos_divide_le_eq)
    moreover have "(2::rat) ^ (bn - 1) / 2 ^ bd = 2 powi (int (bn - 1) - int bd)"
      by (simp add: power_int_diff)
    moreover have "int (bn - 1) - int bd = k - 1"
      using nb(3) by (simp add: k_def)
    ultimately show ?thesis by simp
  qed
  have b: "binade x = (if 2 powi k \<le> x then k else k - 1)"
    by (simp add: binade_def q k_def bn_def bd_def Let_def)
  show ?thesis
  proof (cases "2 powi k \<le> x")
    case True
    then show ?thesis using up b by simp
  next
    case False
    then show ?thesis using lo b by simp
  qed
qed

lemma binade_eqI:
  assumes "0 < x" and "2 powi e \<le> x" and "x < 2 powi (e + 1)"
  shows "binade x = e"
proof (rule ccontr)
  assume ne: "binade x \<noteq> e"
  note b = binade_bounds [OF assms(1)]
  show False
  proof (cases "binade x < e")
    case True
    then have "(2::rat) powi (binade x + 1) \<le> 2 powi e"
      by (intro power_int_increasing) simp_all
    then show False using b assms(2) by linarith
  next
    case False
    then have "e + 1 \<le> binade x" using ne by simp
    then have "(2::rat) powi (e + 1) \<le> 2 powi binade x"
      by (intro power_int_increasing) simp_all
    then show False using b assms(3) by linarith
  qed
qed

lemma roundDouble_normal:
  assumes "0 < x" and "2 powi e \<le> x" and "x < 2 powi (e + 1)" and "- 1022 \<le> e"
  shows "roundDouble x = of_int (roundHalfEven (x / 2 powi (e - 52))) * 2 powi (e - 52)"
  using assms binade_eqI [OF assms(1-3)]
  by (simp add: roundDouble_def Let_def max_def)

lemma roundHalfEven_of_int_div:
  assumes "0 < d"
  shows "roundHalfEven (of_int n / of_int d) =
           (if 2 * (n mod d) < d then n div d
            else if d < 2 * (n mod d) then n div d + 1
            else if even (n div d) then n div d else n div d + 1)"
proof -
  have dr: "(0::rat) < of_int d" using assms by simp
  have fl: "\<lfloor>(of_int n :: rat) / of_int d\<rfloor> = n div d"
    by (rule floor_divide_of_int_eq)
  have "(of_int n :: rat) = of_int (n div d * d + n mod d)" by simp
  also have "\<dots> = of_int (n div d) * of_int d + of_int (n mod d)"
    by (simp only: of_int_add of_int_mult)
  finally have r: "(of_int n :: rat) / of_int d - of_int (n div d) = of_int (n mod d) / of_int d"
    using dr by (simp add: field_simps)
  have lt: "(of_int (n mod d) :: rat) / of_int d < 1 / 2 \<longleftrightarrow> 2 * (n mod d) < d"
  proof -
    have "(of_int (n mod d) :: rat) / of_int d < 1 / 2 \<longleftrightarrow>
            (of_int (2 * (n mod d)) :: rat) < of_int d"
      using dr by (simp add: field_simps)
    then show ?thesis by (simp only: of_int_less_iff)
  qed
  have gt: "1 / 2 < (of_int (n mod d) :: rat) / of_int d \<longleftrightarrow> d < 2 * (n mod d)"
  proof -
    have "1 / 2 < (of_int (n mod d) :: rat) / of_int d \<longleftrightarrow>
            (of_int d :: rat) < of_int (2 * (n mod d))"
      using dr by (simp add: field_simps)
    then show ?thesis by (simp only: of_int_less_iff)
  qed
  show ?thesis
    by (simp only: roundHalfEven_def Let_def fl r lt gt)
qed

lemma roundHalfEven_numeral:
  "roundHalfEven (numeral a / numeral b) =
     (if 2 * (numeral a mod numeral b) < (numeral b :: int) then numeral a div numeral b
      else if (numeral b :: int) < 2 * (numeral a mod numeral b)
           then numeral a div numeral b + 1
      else if even (numeral a div numeral b :: int) then numeral a div numeral b
           else numeral a div numeral b + 1)"
  using roundHalfEven_of_int_div [of "numeral b" "numeral a"] by simp

lemma floor_rat_numeral:
  "\<lfloor>(numeral a :: rat) / numeral b\<rfloor> = numeral a div numeral b"
  using floor_divide_of_int_eq [of "numeral a" "numeral b", where ?'a = rat] by simp

text \<open>
  The rounded value is a multiple of the spacing of its exponent by definition, and it is
  within half that spacing of the exact value.
\<close>

lemma roundHalfEven_near: "\<bar>of_int (roundHalfEven y) - y\<bar> \<le> 1 / 2"
proof -
  have "of_int \<lfloor>y\<rfloor> \<le> y" and "y < of_int \<lfloor>y\<rfloor> + 1"
    by linarith+
  then show ?thesis
    by (auto simp: roundHalfEven_def Let_def)
qed

lemma roundDouble_near:
  assumes "0 < x" and "- 1022 \<le> binade x"
  shows "\<bar>roundDouble x - x\<bar> \<le> 2 powi (binade x - 53)"
proof -
  define q :: rat where "q = 2 powi (binade x - 52)"
  have q: "0 < q" by (simp add: q_def)
  note b = binade_bounds [OF assms(1)]
  have r: "roundDouble x = of_int (roundHalfEven (x / q)) * q"
    using roundDouble_normal [OF assms(1) _ _ assms(2)] b by (simp add: q_def)
  have "\<bar>of_int (roundHalfEven (x / q)) * q - x\<bar>
          = \<bar>of_int (roundHalfEven (x / q)) - x / q\<bar> * q"
  proof -
    have "of_int (roundHalfEven (x / q)) * q - x
            = (of_int (roundHalfEven (x / q)) - x / q) * q"
      using q by (simp add: field_simps)
    then show ?thesis using q by (simp add: abs_mult)
  qed
  also have "\<dots> \<le> 1 / 2 * q"
    using roundHalfEven_near [of "x / q"] q by (intro mult_right_mono) simp_all
  also have "1 / 2 * q = 2 powi (binade x - 53)"
  proof -
    have "(2::rat) powi (binade x - 52) = 2 powi (binade x - 53 + 1)" by simp
    also have "\<dots> = 2 powi (binade x - 53) * 2"
      by (subst power_int_add) simp_all
    finally show ?thesis by (simp add: q_def)
  qed
  finally show ?thesis by (simp only: r)
qed

text \<open>
  Integers of the safe range are binary64 values: rounding leaves them as they are, which
  is why the counts and amounts of the game are modelled as integers.
\<close>

lemma roundHalfEven_of_int: "roundHalfEven (of_int m) = m"
  by (simp add: roundHalfEven_def)

lemma roundDouble_of_int:
  assumes "\<bar>n\<bar> < 2 ^ 53"
  shows "roundDouble (of_int n) = of_int n"
proof (cases "n = 0")
  case True
  then show ?thesis by (simp add: roundDouble_def)
next
  case False
  define x :: rat where "x = of_int \<bar>n\<bar>"
  define e where "e = binade x"
  have x1: "1 \<le> x" using False by (simp add: x_def)
  then have xpos: "0 < x" by simp
  have xlt: "x < 2 ^ 53"
  proof -
    have "(of_int \<bar>n\<bar> :: rat) < of_int (2 ^ 53)"
      using assms by (simp only: of_int_less_iff)
    then show ?thesis by (simp add: x_def)
  qed
  note b = binade_bounds [OF xpos, folded e_def]
  have e0: "0 \<le> e"
  proof (rule ccontr)
    assume "\<not> 0 \<le> e"
    then have "e + 1 \<le> 0" by simp
    then have "(2::rat) powi (e + 1) \<le> 2 powi 0"
      by (intro power_int_increasing) simp_all
    then show False using b x1 by simp
  qed
  have e52: "e \<le> 52"
  proof (rule ccontr)
    assume "\<not> e \<le> 52"
    then have "53 \<le> e" by simp
    then have "(2::rat) powi 53 \<le> 2 powi e"
      by (intro power_int_increasing) simp_all
    then show False using b xlt by simp
  qed
  define k where "k = nat (52 - e)"
  have "e - 52 = - int k" using e52 by (simp add: k_def)
  then have ulp: "(2::rat) powi (e - 52) = 1 / 2 ^ k"
    by (simp add: power_int_minus_divide)
  have scaled: "x / (1 / 2 ^ k) = of_int (\<bar>n\<bar> * 2 ^ k)"
    by (simp add: x_def)
  have "roundDouble (of_int n)
          = sgn (of_int n) * of_int (roundHalfEven (x / 2 powi (e - 52))) * 2 powi (e - 52)"
    using False e0 by (simp add: roundDouble_def Let_def e_def x_def max_def)
  also have "\<dots> = sgn (of_int n) * (of_int (\<bar>n\<bar> * 2 ^ k) * (1 / 2 ^ k))"
    by (simp only: ulp scaled roundHalfEven_of_int mult.assoc)
  also have "of_int (\<bar>n\<bar> * 2 ^ k) * (1 / 2 ^ k) = (of_int \<bar>n\<bar> :: rat)"
    by simp
  also have "sgn (of_int n) * (of_int \<bar>n\<bar> :: rat) = of_int n"
    by (simp add: mult_sgn_abs)
  finally show ?thesis .
qed

subsection \<open>Numbers that hold integers\<close>

text \<open>
  The rounding of an integer is an integer, so \<open>numRound\<close> loses nothing; and an
  integer of the safe range (below \<open>2 ^ 53\<close> in absolute value) is its own rounding, so
  a sum, difference or product in that range is exact.
\<close>

lemma roundDouble_of_int_whole:
  "of_int \<lfloor>roundDouble (of_int n)\<rfloor> = roundDouble (of_int n)"
proof (cases "\<bar>n\<bar> < 2 ^ 53")
  case True
  then show ?thesis by (simp add: roundDouble_of_int)
next
  case False
  define x :: rat where "x = of_int \<bar>n\<bar>"
  define e where "e = binade x"
  have "(2::int) ^ 53 \<le> \<bar>n\<bar>" using False by simp
  then have "(of_int ((2::int) ^ 53) :: rat) \<le> of_int \<bar>n\<bar>"
    by (simp only: of_int_le_iff)
  then have big: "2 ^ 53 \<le> x" by (simp add: x_def)
  moreover have "(0::rat) < 2 ^ 53" by simp
  ultimately have xpos: "0 < x" by linarith
  note b = binade_bounds [OF xpos, folded e_def]
  have e53: "53 \<le> e"
  proof (rule ccontr)
    assume "\<not> 53 \<le> e"
    then have "e + 1 \<le> 53" by simp
    then have "(2::rat) powi (e + 1) \<le> 2 powi 53"
      by (intro power_int_increasing) simp_all
    then show False using b big by simp
  qed
  define k where "k = nat (e - 52)"
  have "e - 52 = int k" using e53 by (simp add: k_def)
  then have ulp: "(2::rat) powi (e - 52) = of_int (2 ^ k)" by simp
  have n0: "n \<noteq> 0" using False by auto
  have sg: "sgn (of_int n :: rat) = of_int (sgn n)"
    by (simp add: sgn_if)
  have "roundDouble (of_int n)
          = sgn (of_int n) * of_int (roundHalfEven (x / 2 powi (e - 52))) * 2 powi (e - 52)"
    using n0 e53 by (simp add: roundDouble_def Let_def e_def x_def max_def)
  also have "\<dots> = of_int (sgn n * roundHalfEven (x / 2 powi (e - 52)) * 2 ^ k)"
    by (simp only: ulp sg of_int_mult)
  finally show ?thesis by (simp only: floor_of_int)
qed

lemma numRound_of_int:
  assumes "\<bar>n\<bar> < 2 ^ 53"
  shows "numRound (of_int n) = n"
  using assms by (simp add: numRound_def roundDouble_of_int)

lemma numAdd_safe:
  assumes "\<bar>a + b\<bar> < 2 ^ 53"
  shows "numAdd a b = a + b"
  using numRound_of_int [OF assms] by (simp add: numAdd_def)

lemma numSub_safe:
  assumes "\<bar>a - b\<bar> < 2 ^ 53"
  shows "numSub a b = a - b"
  using numRound_of_int [OF assms] by (simp add: numSub_def)

lemma numMul_safe:
  assumes "\<bar>a * b\<bar> < 2 ^ 53"
  shows "numMul a b = a * b"
  using numRound_of_int [OF assms] by (simp add: numMul_def)

lemma roundHalfEven_numeral_whole: "roundHalfEven (numeral a) = numeral a"
  using roundHalfEven_of_int [of "numeral a"] by simp

subsection \<open>Sums over unit lists\<close>

text \<open>
  A \<^verbatim>\<open>reduce\<close> with \<^verbatim>\<open>+\<close> is the exact sum when the absolute values of the start
  and of the summands add up to less than \<open>2 ^ 53\<close>: every partial sum is then in the
  safe range.
\<close>

lemma foldl_numAdd:
  assumes "\<bar>a\<bar> + (\<Sum>x\<leftarrow>xs. \<bar>f x\<bar>) < 2 ^ 53"
  shows "foldl (\<lambda>acc x. numAdd acc (f x)) a xs = a + (\<Sum>x\<leftarrow>xs. f x)"
  using assms
proof (induction xs arbitrary: a)
  case Nil
  show ?case by simp
next
  case (Cons x xs)
  have nonneg: "0 \<le> (\<Sum>x\<leftarrow>xs. \<bar>f x\<bar>)"
    by (rule sum_list_nonneg) auto
  have "\<bar>a + f x\<bar> < 2 ^ 53"
    using Cons.prems nonneg by simp
  then have step: "numAdd a (f x) = a + f x"
    by (rule numAdd_safe)
  have "\<bar>a + f x\<bar> + (\<Sum>x\<leftarrow>xs. \<bar>f x\<bar>) < 2 ^ 53"
    using Cons.prems by simp
  from Cons.IH [OF this] show ?case
    by (simp add: step)
qed

lemma abs_member_le_sum_list:
  fixes f :: "'a \<Rightarrow> int"
  assumes "x \<in> set xs"
  shows "\<bar>f x\<bar> \<le> (\<Sum>y\<leftarrow>xs. \<bar>f y\<bar>)"
  using assms
proof (induction xs)
  case Nil
  then show ?case by simp
next
  case (Cons y ys)
  have "0 \<le> (\<Sum>y\<leftarrow>ys. \<bar>f y\<bar>)"
    by (rule sum_list_nonneg) auto
  then show ?case using Cons by auto
qed

lemma abs_sum_list_le:
  fixes f :: "'a \<Rightarrow> int"
  shows "\<bar>\<Sum>x\<leftarrow>xs. f x\<bar> \<le> (\<Sum>x\<leftarrow>xs. \<bar>f x\<bar>)"
  by (induction xs) auto

lemma population_sum_list:
  assumes "(\<Sum>unit\<leftarrow>units u. \<bar>quantity unit\<bar>) < 2 ^ 53"
  shows "population u = sum_list (map quantity (units u))"
  using foldl_numAdd [where a = 0 and xs = "units u" and f = quantity] assms
  by (simp add: population_def)

subsection \<open>Gold per turn\<close>

lemma find_UnitTypes_worker:
  assumes "ptype unit = ''WORKER''"
    and "t \<in> set UnitTypes" and "utype t = ptype unit" and "ulevel t = plevel unit"
  shows "find (\<lambda>unitType. utype unitType = ptype unit \<and> ulevel unitType = plevel unit)
           UnitTypes = Some t"
  using assms by (auto simp: UnitTypes_def mkUnit_def)

lemma mapWorkerGold_matched:
  assumes "\<forall>unit\<in>set ws. ptype unit = ''WORKER'' \<and>
             (\<exists>t\<in>set UnitTypes. utype t = ptype unit \<and> ulevel t = plevel unit
                \<and> b unit = bonus t)"
  shows "mapWorkerGold ws = Inr (map (\<lambda>unit. numMul (b unit) (quantity unit)) ws)"
  using assms
proof (induction ws)
  case Nil
  show ?case by simp
next
  case (Cons w ws)
  from Cons.prems obtain t where t: "ptype w = ''WORKER''" "t \<in> set UnitTypes"
    "utype t = ptype w" "ulevel t = plevel w" "b w = bonus t"
    by auto
  have "workerGold w = Inr (numMul (b w) (quantity w))"
    using find_UnitTypes_worker [OF t(1-4)] t(5) by (simp add: workerGold_def)
  moreover have "mapWorkerGold ws = Inr (map (\<lambda>unit. numMul (b unit) (quantity unit)) ws)"
  proof (rule Cons.IH)
    show "\<forall>unit\<in>set ws. ptype unit = ''WORKER'' \<and>
             (\<exists>t\<in>set UnitTypes. utype t = ptype unit \<and> ulevel t = plevel unit
                \<and> b unit = bonus t)"
      using Cons.prems by (meson list.set_intros(2))
  qed
  ultimately show ?case by simp
qed

text \<open>
  C2. When the fort level is a key of \<open>Fortifications\<close>, every \<^verbatim>\<open>WORKER\<close> unit has
  an entry of \<open>UnitTypes\<close> of its type and level (\<open>b unit\<close> being the bonus of such an
  entry), and the absolute values of the products bonus times quantity and of the gold
  per turn of the fortification add up to less than \<open>2 ^ 53\<close>, \<open>goldPerTurn\<close> does not
  throw and returns the sum over the \<^verbatim>\<open>WORKER\<close> units of bonus times quantity, plus the
  gold per turn of the fortification. Only the \<^verbatim>\<open>WORKER\<close> units enter the sum: units
  of any other type contribute nothing.
\<close>

theorem goldPerTurn_workers_and_fort:
  assumes "map_of Fortifications (fortLevel u) = Some fort"
    and "\<forall>unit\<in>set (units u). ptype unit = ''WORKER'' \<longrightarrow>
           (\<exists>t\<in>set UnitTypes. utype t = ptype unit \<and> ulevel t = plevel unit
              \<and> b unit = bonus t)"
    and "(\<Sum>unit\<leftarrow>filter (\<lambda>unit. ptype unit = ''WORKER'') (units u).
            \<bar>b unit * quantity unit\<bar>)
         + \<bar>fort_goldPerTurn fort\<bar> < 2 ^ 53"
  shows "goldPerTurn u =
           Inr ((\<Sum>unit\<leftarrow>filter (\<lambda>unit. ptype unit = ''WORKER'') (units u).
                   b unit * quantity unit)
                + fort_goldPerTurn fort)"
proof -
  let ?ws = "filter (\<lambda>unit. ptype unit = ''WORKER'') (units u)"
  let ?g = "\<lambda>unit. b unit * quantity unit"
  have bound: "(\<Sum>unit\<leftarrow>?ws. \<bar>?g unit\<bar>) < 2 ^ 53"
    using assms(3) by simp
  have "mapWorkerGold ?ws = Inr (map (\<lambda>unit. numMul (b unit) (quantity unit)) ?ws)"
    by (rule mapWorkerGold_matched) (use assms(2) in auto)
  moreover have "map (\<lambda>unit. numMul (b unit) (quantity unit)) ?ws = map ?g ?ws"
  proof (rule map_cong [OF refl])
    fix unit assume "unit \<in> set ?ws"
    from abs_member_le_sum_list [OF this, where f = ?g] bound
    have "\<bar>b unit * quantity unit\<bar> < 2 ^ 53" by simp
    then show "numMul (b unit) (quantity unit) = b unit * quantity unit"
      by (rule numMul_safe)
  qed
  ultimately have golds: "mapWorkerGold ?ws = Inr (map ?g ?ws)"
    by simp
  have total: "foldl (\<lambda>acc gold. numAdd acc gold) 0 (map ?g ?ws) = (\<Sum>unit\<leftarrow>?ws. ?g unit)"
    using foldl_numAdd [where a = 0 and xs = ?ws and f = ?g] bound by (simp add: foldl_map)
  have "\<bar>(\<Sum>unit\<leftarrow>?ws. ?g unit) + fort_goldPerTurn fort\<bar> < 2 ^ 53"
    using abs_sum_list_le [where f = ?g and xs = ?ws] assms(3) by simp
  then have "numAdd (\<Sum>unit\<leftarrow>?ws. ?g unit) (fort_goldPerTurn fort)
               = (\<Sum>unit\<leftarrow>?ws. ?g unit) + fort_goldPerTurn fort"
    by (rule numAdd_safe)
  then show ?thesis
    using assms(1) by (simp add: goldPerTurn_def golds total)
qed

theorem goldPerTurn_workers_and_fort_witness:
  "map_of Fortifications (fortLevel exampleUser) = Some (mkFort ''Manor'' 0 50 0 1000 0 0)
   \<and> goldPerTurn exampleUser = Inr 1260"
proof -
  have fort: "map_of Fortifications (fortLevel exampleUser)
                = Some (mkFort ''Manor'' 0 50 0 1000 0 0)"
    by (simp add: Fortifications_def exampleUser_def)
  have sel: "\<forall>unit\<in>set (units exampleUser). ptype unit = ''WORKER'' \<longrightarrow>
           (\<exists>t\<in>set UnitTypes. utype t = ptype unit \<and> ulevel t = plevel unit
              \<and> (\<lambda>_. 65) unit = bonus t)"
    by (simp add: exampleUser_def UnitTypes_def mkUnit_def)
  have bound: "(\<Sum>unit\<leftarrow>filter (\<lambda>unit. ptype unit = ''WORKER'') (units exampleUser).
                  \<bar>(\<lambda>_. 65) unit * quantity unit\<bar>)
               + \<bar>fort_goldPerTurn (mkFort ''Manor'' 0 50 0 1000 0 0)\<bar> < 2 ^ 53"
    by (simp add: exampleUser_def mkFort_def)
  show ?thesis
    using goldPerTurn_workers_and_fort [OF fort sel bound] fort
    by (simp add: exampleUser_def mkFort_def)
qed

text \<open>
  Without the bound the sum is not reached: for a single stack of \<open>2 ^ 53 - 1\<close> level-1
  workers in a fort of level 1 the product 65 times the quantity is rounded to a
  multiple of 128, and so is its sum with 1000.
\<close>

lemma product_hugeStack: "numMul 65 9007199254740991 = 585467951558164352"
  unfolding numMul_def numRound_def
  using roundDouble_normal [of 585467951558164415 59]
  by (simp add: roundHalfEven_numeral floor_rat_numeral)

lemma start_hugeStack: "numAdd 0 585467951558164352 = 585467951558164352"
  unfolding numAdd_def numRound_def
  using roundDouble_normal [of 585467951558164352 59]
  by (simp add: roundHalfEven_numeral_whole)

lemma sum_hugeStack: "numAdd 585467951558164352 1000 = 585467951558165376"
  unfolding numAdd_def numRound_def
  using roundDouble_normal [of 585467951558165352 59]
  by (simp add: roundHalfEven_numeral floor_rat_numeral)

theorem goldPerTurn_hugeStack:
  "map_of Fortifications (fortLevel hugeStackUser) = Some (mkFort ''Manor'' 0 50 0 1000 0 0)
   \<and> units hugeStackUser = [\<lparr>ptype = ''WORKER'', plevel = 1, quantity = 9007199254740991\<rparr>]
   \<and> find (\<lambda>unitType. utype unitType = ''WORKER'' \<and> ulevel unitType = 1) UnitTypes
       = Some (mkUnit ''Worker'' ''WORKER'' 1 65 2000)
   \<and> goldPerTurn hugeStackUser = Inr 585467951558165376
   \<and> (\<Sum>unit\<leftarrow>filter (\<lambda>unit. ptype unit = ''WORKER'') (units hugeStackUser).
          65 * quantity unit) + 1000 = 585467951558165415"
  by (simp add: hugeStackUser_def exampleUser_def goldPerTurn_def workerGold_def
      Fortifications_def UnitTypes_def mkUnit_def mkFort_def
      product_hugeStack start_hugeStack sum_hugeStack)

lemma Fortifications_goldPerTurn:
  assumes "map_of Fortifications k = Some fort"
  shows "fort_goldPerTurn fort = 1000 * k"
  using assms by (auto simp: Fortifications_def mkFort_def split: if_splits)

subsection \<open>Bank deposits\<close>

text \<open>
  C5. \<open>maximumBankDeposits\<close> is 1, and \<open>fetchAvailableBankDeposits\<close> is 1 minus the
  number of entries of the fetched history that come from the user's own id, from the
  account \<^verbatim>\<open>HAND\<close> and are of type \<^verbatim>\<open>PLAYER_TRANSFER\<close>. One more entry in the history
  lowers the result by one when it meets the three conditions and leaves it as it is
  otherwise.
\<close>

theorem fetchAvailableBankDeposits_count:
  "maximumBankDeposits u = 1
   \<and> fetchAvailableBankDeposits fetch u =
       1 - int (card {i. i < length (fetch u)
                        \<and> fromUserId (fetch u ! i) = userId u
                        \<and> fromUserAccount (fetch u ! i) = ''HAND''
                        \<and> historyType (fetch u ! i) = ''PLAYER_TRANSFER''})
   \<and> fetchAvailableBankDeposits (\<lambda>_. h # fetch u) u =
       fetchAvailableBankDeposits fetch u
       - (if fromUserId h = userId u \<and> fromUserAccount h = ''HAND''
             \<and> historyType h = ''PLAYER_TRANSFER'' then 1 else 0)"
proof -
  let ?own = "\<lambda>history. fromUserId history = userId u
                \<and> fromUserAccount history = ''HAND''
                \<and> historyType history = ''PLAYER_TRANSFER''"
  have len: "fetchAvailableBankDeposits f u = 1 - int (length (filter ?own (f u)))" for f
    by (simp add: fetchAvailableBankDeposits_def maximumBankDeposits_def Let_def)
  have "maximumBankDeposits u = 1"
    by (simp add: maximumBankDeposits_def)
  moreover have "fetchAvailableBankDeposits fetch u =
       1 - int (card {i. i < length (fetch u) \<and> ?own (fetch u ! i)})"
    by (simp only: len length_filter_conv_card)
  moreover have "fetchAvailableBankDeposits (\<lambda>_. h # fetch u) u =
       fetchAvailableBankDeposits fetch u - (if ?own h then 1 else 0)"
    by (simp add: len)
  ultimately show ?thesis by simp
qed

subsection \<open>Gold\<close>

lemma safeInteger_numAdd:
  assumes "safeInteger (a + b)"
  shows "numAdd a b = a + b"
  using assms by (simp add: safeInteger_def numAdd_safe)

lemma safeInteger_numSub:
  assumes "safeInteger (a - b)"
  shows "numSub a b = a - b"
  using assms by (simp add: safeInteger_def numSub_safe)

text \<open>
  C6. \<open>subtractGold\<close> has no check of the sign: for a gold and an amount that are safe
  integers with a safe difference, that difference is the new gold, negative or not. A
  user with 100 gold who subtracts 101 ends with gold -1.
\<close>

theorem subtractGold_unchecked:
  "(safeInteger (gold u) \<and> safeInteger amount \<and> safeInteger (gold u - amount) \<longrightarrow>
      gold (fst (subtractGold amount u)) = gold u - amount)
   \<and> 0 \<le> gold exampleUser
   \<and> gold (fst (subtractGold 101 exampleUser)) = - 1
   \<and> (\<exists>u' amount'. 0 \<le> gold u' \<and> gold (fst (subtractGold amount' u')) < 0)"
proof -
  have safe: "safeInteger (gold u) \<and> safeInteger amount \<and> safeInteger (gold u - amount) \<longrightarrow>
                gold (fst (subtractGold amount u)) = gold u - amount" for u amount
    by (simp add: subtractGold_def safeInteger_numSub)
  have ex: "0 \<le> gold exampleUser \<and> gold (fst (subtractGold 101 exampleUser)) = - 1"
    using safe [of exampleUser 101] by (simp add: exampleUser_def safeInteger_def)
  then have "\<exists>u' amount'. 0 \<le> gold u' \<and> gold (fst (subtractGold amount' u')) < 0"
    by (intro exI [of _ exampleUser] exI [of _ 101]) simp
  then show ?thesis using safe ex by blast
qed

theorem subtractGold_unchecked_witness:
  "safeInteger (gold exampleUser) \<and> safeInteger 101
   \<and> safeInteger (gold exampleUser - 101)
   \<and> gold (fst (subtractGold 101 exampleUser)) = gold exampleUser - 101
   \<and> gold exampleUser - 101 < 0"
  using subtractGold_unchecked [of exampleUser 101]
  by (simp add: exampleUser_def safeInteger_def)

text \<open>
  C10. Each of the four gold methods leaves every field but its own as it was and
  sends the user's id and the new value of its field to the DAO. When the field, the
  amount and the exact result are safe integers, \<open>addGold\<close> sets the gold to the gold
  plus the amount and \<open>subtractGold\<close> to the gold minus the amount, and
  \<open>addBankedGold\<close> and \<open>subtractBankedGold\<close> do the same to the banked gold.
\<close>

theorem gold_methods_frame:
  "sameButGold u (fst (addGold amount u))
   \<and> snd (addGold amount u) = SetGold (userId u) (gold (fst (addGold amount u)))
   \<and> sameButGold u (fst (subtractGold amount u))
   \<and> snd (subtractGold amount u) = SetGold (userId u) (gold (fst (subtractGold amount u)))
   \<and> sameButGoldInBank u (fst (addBankedGold amount u))
   \<and> snd (addBankedGold amount u)
       = SetBankedGold (userId u) (goldInBank (fst (addBankedGold amount u)))
   \<and> sameButGoldInBank u (fst (subtractBankedGold amount u))
   \<and> snd (subtractBankedGold amount u)
       = SetBankedGold (userId u) (goldInBank (fst (subtractBankedGold amount u)))
   \<and> (safeInteger (gold u) \<and> safeInteger amount \<and> safeInteger (gold u + amount) \<longrightarrow>
        gold (fst (addGold amount u)) = gold u + amount)
   \<and> (safeInteger (gold u) \<and> safeInteger amount \<and> safeInteger (gold u - amount) \<longrightarrow>
        gold (fst (subtractGold amount u)) = gold u - amount)
   \<and> (safeInteger (goldInBank u) \<and> safeInteger amount
        \<and> safeInteger (goldInBank u + amount) \<longrightarrow>
        goldInBank (fst (addBankedGold amount u)) = goldInBank u + amount)
   \<and> (safeInteger (goldInBank u) \<and> safeInteger amount
        \<and> safeInteger (goldInBank u - amount) \<longrightarrow>
        goldInBank (fst (subtractBankedGold amount u)) = goldInBank u - amount)"
  by (simp add: addGold_def subtractGold_def addBankedGold_def subtractBankedGold_def
      sameButGold_def sameButGoldInBank_def safeInteger_numAdd safeInteger_numSub)

theorem gold_methods_frame_witness:
  "safeInteger (gold exampleUser) \<and> safeInteger (goldInBank exampleUser) \<and> safeInteger 5
   \<and> safeInteger (gold exampleUser + 5)
   \<and> gold (fst (addGold 5 exampleUser)) = 105
   \<and> snd (addGold 5 exampleUser) = SetGold 1 105
   \<and> safeInteger (gold exampleUser - 5)
   \<and> gold (fst (subtractGold 5 exampleUser)) = 95
   \<and> safeInteger (goldInBank exampleUser + 5)
   \<and> goldInBank (fst (addBankedGold 5 exampleUser)) = 5
   \<and> safeInteger (goldInBank exampleUser - 5)
   \<and> goldInBank (fst (subtractBankedGold 5 exampleUser)) = - 5
   \<and> sameButGold exampleUser (fst (addGold 5 exampleUser))"
  using gold_methods_frame [of exampleUser 5]
  by (simp add: exampleUser_def safeInteger_def)

text \<open>
  Beyond the safe range the new gold is the rounded sum: \<open>2 ^ 53 - 1\<close> plus 2 is a tie
  between two binary64 values and goes to the even one, \<open>2 ^ 53\<close>.
\<close>

lemma sum_richUser: "numAdd 9007199254740991 2 = 9007199254740992"
  unfolding numAdd_def numRound_def
  using roundDouble_normal [of 9007199254740993 53]
  by (simp add: roundHalfEven_numeral)

theorem addGold_beyond_safe_range:
  "gold richUser = 9007199254740991
   \<and> safeInteger (gold richUser) \<and> safeInteger 2
   \<and> gold (fst (addGold 2 richUser)) = 9007199254740992
   \<and> snd (addGold 2 richUser) = SetGold 1 9007199254740992
   \<and> gold (fst (addGold 2 richUser)) \<noteq> gold richUser + 2"
  by (simp add: richUser_def exampleUser_def addGold_def sum_richUser safeInteger_def)

subsection \<open>Citizens\<close>

lemma find_hd_filter:
  "find P xs = (if \<exists>x\<in>set xs. P x then Some (hd (filter P xs)) else None)"
  by (induction xs) auto

text \<open>
  C9. \<open>citizens\<close> throws exactly when no unit is a \<^verbatim>\<open>CITIZEN\<close>. When some unit is,
  it returns the quantity of the first such unit of the list.
\<close>

theorem citizens_first_citizen:
  "citizens u =
     (if \<exists>unit\<in>set (units u). ptype unit = ''CITIZEN''
      then Inr (quantity (hd (filter (\<lambda>unit. ptype unit = ''CITIZEN'') (units u))))
      else Inl TypeError)"
  by (simp add: citizens_def find_hd_filter)

theorem citizens_first_citizen_witness:
  "(\<exists>unit\<in>set (units exampleUser). ptype unit = ''CITIZEN'')
   \<and> citizens exampleUser = Inr 10
   \<and> citizens (exampleUser\<lparr>units := []\<rparr>) = Inl TypeError"
  using citizens_first_citizen [of exampleUser]
    citizens_first_citizen [of "exampleUser\<lparr>units := []\<rparr>"]
  by (simp add: exampleUser_def)

subsection \<open>Fetching users\<close>

text \<open>
  C7. \<open>fetchById\<close> and \<open>fetchByEmail\<close> return \<open>None\<close> exactly when the lookup of
  the DAO finds no record; a record found comes back as a model whose public fields are
  the fields of the record. The overview controller, which fetches the user of id 1,
  answers 404 exactly when that fetch returns \<open>None\<close>.
\<close>

theorem fetch_null_iff_no_record:
  "(fetchById dao i = None \<longleftrightarrow> dao_fetchById dao i = None)
   \<and> (fetchByEmail dao e = None \<longleftrightarrow> dao_fetchByEmail dao e = None)
   \<and> (\<forall>d. dao_fetchById dao i = Some d \<longrightarrow>
          (\<exists>m. fetchById dao i = Some m \<and> sameFields d m))
   \<and> (\<forall>d. dao_fetchByEmail dao e = Some d \<longrightarrow>
          (\<exists>m. fetchByEmail dao e = Some m \<and> sameFields d m))
   \<and> (overviewPage dao = SendStatus 404 \<longleftrightarrow> fetchById dao 1 = None)"
proof -
  have fields: "sameFields d (UserModel d)" for d
    by (simp add: sameFields_def UserModel_def)
  have byId: "fetchById dao i = map_option UserModel (dao_fetchById dao i)" for i
    by (simp add: fetchById_def split: option.split)
  have byEmail: "fetchByEmail dao e = map_option UserModel (dao_fetchByEmail dao e)"
    by (simp add: fetchByEmail_def split: option.split)
  have status: "overviewPage dao = SendStatus 404 \<longleftrightarrow> fetchById dao 1 = None"
    by (simp add: overviewPage_def split: option.split sum.split)
  show ?thesis
    using fields status by (simp add: byId byEmail)
qed

theorem fetch_null_iff_no_record_witness:
  "fetchById exampleDao 2 = None
   \<and> fetchByEmail exampleDao ''nobody@example.com'' = None
   \<and> (\<exists>m. fetchById exampleDao 1 = Some m \<and> sameFields exampleData m)
   \<and> (\<exists>m. fetchByEmail exampleDao ''commander@example.com'' = Some m
          \<and> sameFields exampleData m)
   \<and> overviewPage exampleDao \<noteq> SendStatus 404
   \<and> overviewPage emptyDao = SendStatus 404"
  using fetch_null_iff_no_record [of exampleDao 2 "''nobody@example.com''"]
    fetch_null_iff_no_record [of exampleDao 1 "''commander@example.com''"]
    fetch_null_iff_no_record [of emptyDao 1 "''commander@example.com''"]
  by (simp add: exampleDao_def emptyDao_def)

subsection \<open>Fort health\<close>

lemma Fortifications_hitpoints_positive:
  assumes "map_of Fortifications k = Some fort"
  shows "0 < hitpoints fort"
  using assms by (auto simp: Fortifications_def mkFort_def split: if_splits)

lemma fortHealth_current_max:
  assumes "map_of Fortifications (fortLevel u) = Some fort"
  shows "\<exists>h. fortHealth u = Inr h \<and> health_current h = fortHitpoints u
           \<and> health_max h = hitpoints fort"
  using assms by (simp add: fortHealth_def)

lemma quotient_29_50: "jsDivide 29 50 = 5224175567749775 / 9007199254740992"
  unfolding jsDivide_def
  using roundDouble_normal [of "29 / 50" "- 1"]
  by (simp add: roundHalfEven_numeral power_int_minus)

lemma product_29_50:
  "jsTimes (5224175567749775 / 9007199254740992) 100 = 8162774324609023 / 140737488355328"
  unfolding jsTimes_def
  using roundDouble_normal [of "5224175567749775 / 9007199254740992 * 100" 5]
  by (simp add: roundHalfEven_numeral power_int_minus)

text \<open>
  C4. A fort of level 1 (50 hitpoints at most) with 29 hitpoints: \<open>fortHealth\<close> returns
  the current and the maximal hitpoints and the percentage 57. The quotient 29 / 50 is
  rounded to the binary64 value just below 0.58, its product with 100 to the value just
  below 58, and the floor of that is 57; the floor of 29 divided by 50, times 100, is 58.
\<close>

theorem fortHealth_29_of_50:
  "fortHealth exampleUser =
     Inr \<lparr>health_current = 29, health_max = 50, health_percentage = 57\<rparr>
   \<and> \<lfloor>(of_int (fortHitpoints exampleUser) :: rat) / 50 * 100\<rfloor> = 58"
proof -
  have fort: "map_of Fortifications (fortLevel exampleUser)
                = Some (mkFort ''Manor'' 0 50 0 1000 0 0)"
    by (simp add: Fortifications_def exampleUser_def)
  have hp: "fortHitpoints exampleUser = 29"
    by (simp add: exampleUser_def)
  have "\<lfloor>jsTimes (jsDivide 29 50) 100\<rfloor> = 57"
    by (simp only: quotient_29_50 product_29_50 floor_rat_numeral)
  then have "fortHealth exampleUser =
     Inr \<lparr>health_current = 29, health_max = 50, health_percentage = 57\<rparr>"
    by (simp add: fortHealth_def fort hp mkFort_def)
  moreover have "\<lfloor>(of_int (fortHitpoints exampleUser) :: rat) / 50 * 100\<rfloor> = 58"
    by (simp add: hp)
  ultimately show ?thesis by simp
qed

subsection \<open>Level\<close>

text \<open>
  With positive experience the level is decided by the strict comparisons, with negative
  experience the getter throws, and away from the three thresholds above 0 the level is
  the greatest level whose threshold is at most the experience.
\<close>

lemma level_positive:
  assumes "0 < experience u"
  shows "level u =
           Inr (if experience u \<le> 200 then 1 else if experience u \<le> 500 then 2
                else if experience u \<le> 1000 then 3 else 4)"
  using assms by (simp add: level_def Levels_def)

lemma level_negative:
  assumes "experience u < 0"
  shows "level u = Inl TypeError"
  using assms by (simp add: level_def Levels_def)

lemma level_off_threshold:
  assumes "0 \<le> experience u" and "experience u \<notin> {200, 500, 1000}"
  shows "level u = Inr (greatestLevelUpTo (experience u))"
proof (cases "experience u = 0")
  case True
  then show ?thesis by (simp add: level_def greatestLevelUpTo_def Levels_def)
next
  case False
  then have "0 < experience u" using assms(1) by simp
  from level_positive [OF this] assms show ?thesis
    by (auto simp add: greatestLevelUpTo_def Levels_def)
qed

text \<open>
  C1. A user with experience 200, the threshold of level 2: \<open>level\<close> keeps the
  thresholds strictly below the experience (only that of level 1) and returns 1; the
  greatest level whose threshold is at most 200 is 2. For the same user
  \<open>xpToNextLevel\<close> is 0: no experience is missing for level 2. With experience 1000,
  the threshold of the top level 4, \<open>level\<close> returns 3.
\<close>

theorem level_at_threshold:
  "experience exampleUser = 200
   \<and> level exampleUser = Inr 1
   \<and> greatestLevelUpTo (experience exampleUser) = 2
   \<and> xpToNextLevel exampleUser = Inr (Some 0)
   \<and> level (exampleUser\<lparr>experience := 1000\<rparr>) = Inr 3
   \<and> greatestLevelUpTo 1000 = 4"
  by (simp add: exampleUser_def level_def xpToNextLevel_def greatestLevelUpTo_def Levels_def
      numSub_safe)

subsection \<open>Training units\<close>

text \<open>
  The order and the units by type and level, in the safe range. When no two entries of
  the order have the same type and level, every unit is changed as the order says: the
  first \<^verbatim>\<open>CITIZEN\<close> unit pays the total, a unit with an entry of its type and level
  receives the quantity of that entry, and the entries that match no unit are appended.
  When moreover no two units have the same type and level, the population is the same
  before and after.
\<close>

lemma find_match_None:
  "find (\<lambda>a. ptype a = ptype b \<and> plevel a = plevel b) xs = None
     \<longleftrightarrow> unitKey b \<notin> unitKey ` set xs"
  by (induction xs) (auto simp: unitKey_def)

lemma updateFirst_keys:
  "map unitKey (updateFirst P (\<lambda>c. c\<lparr>quantity := g c\<rparr>) xs) = map unitKey xs"
  by (induction xs) (simp_all add: unitKey_def)

lemma updateFirst_cong:
  assumes "\<And>x. x \<in> set xs \<Longrightarrow> f x = g x"
  shows "updateFirst P f xs = updateFirst P g xs"
  using assms by (induction xs) simp_all

lemma updateFirst_member:
  assumes "x \<in> set (updateFirst P f xs)"
  shows "x \<in> set xs \<or> (\<exists>y\<in>set xs. x = f y)"
  using assms by (induction xs) (auto split: if_splits)

lemma updateFirst_length: "length (updateFirst P f xs) = length xs"
  by (induction xs) simp_all

lemma sum_abs_nonneg:
  fixes f :: "'a \<Rightarrow> int"
  shows "0 \<le> (\<Sum>x\<leftarrow>xs. \<bar>f x\<bar>)"
  by (rule sum_list_nonneg) auto

lemma gain_abs: "\<bar>gain quantity newUnits unit\<bar> = gain (\<lambda>n. \<bar>quantity n\<bar>) newUnits unit"
  by (simp add: gain_def split: option.split)

lemma gain_member_bound:
  "\<bar>gain quantity newUnits unit\<bar> \<le> (\<Sum>n\<leftarrow>newUnits. \<bar>quantity n\<bar>)"
proof (cases "find (\<lambda>newUnit. ptype newUnit = ptype unit \<and> plevel newUnit = plevel unit)
                newUnits")
  case None
  then show ?thesis by (simp add: gain_def sum_abs_nonneg)
next
  case (Some n)
  then have "n \<in> set newUnits" by (auto simp: find_Some_iff)
  from abs_member_le_sum_list [OF this, where f = quantity] Some
  show ?thesis by (simp add: gain_def)
qed

text \<open>
  When the absolute values of the quantities of the units, and twice those of the
  order, add up to less than \<open>2 ^ 53\<close>, every intermediate quantity of
  \<^verbatim>\<open>trainNewUnits\<close> is in the safe range and the method computes \<open>trainedUnits\<close>.
\<close>

lemma trainNewUnits_safe:
  assumes "\<exists>unit\<in>set (units u). ptype unit = ''CITIZEN''"
    and "(\<Sum>unit\<leftarrow>units u. \<bar>quantity unit\<bar>) + 2 * (\<Sum>n\<leftarrow>newUnits. \<bar>quantity n\<bar>) < 2 ^ 53"
  shows "trainNewUnits newUnits u
           = Inr (u\<lparr>units := trainedUnits newUnits (units u)\<rparr>,
                  SetUnits (userId u) (trainedUnits newUnits (units u)))"
proof -
  define T where "T = (\<Sum>n\<leftarrow>newUnits. quantity n)"
  define BU where "BU = (\<Sum>unit\<leftarrow>units u. \<bar>quantity unit\<bar>)"
  define BN where "BN = (\<Sum>n\<leftarrow>newUnits. \<bar>quantity n\<bar>)"
  have B: "BU + 2 * BN < 2 ^ 53" using assms(2) by (simp add: BU_def BN_def)
  have BU0: "0 \<le> BU" and BN0: "0 \<le> BN"
    by (simp_all add: BU_def BN_def sum_abs_nonneg)
  have Tabs: "\<bar>T\<bar> \<le> BN"
    unfolding T_def BN_def by (rule abs_sum_list_le)
  have total: "foldl (\<lambda>acc unit. numAdd acc (quantity unit)) 0 newUnits = T"
    using foldl_numAdd [where a = 0 and xs = newUnits and f = quantity] B BU0 BN0
    by (simp add: T_def BN_def)
  define subtracted where "subtracted =
    updateFirst (\<lambda>unit. ptype unit = ''CITIZEN'')
      (\<lambda>citizenUnits. citizenUnits\<lparr>quantity := quantity citizenUnits - T\<rparr>) (units u)"
  have sub: "updateFirst (\<lambda>unit. ptype unit = ''CITIZEN'')
      (\<lambda>citizenUnits. citizenUnits\<lparr>quantity := numSub (quantity citizenUnits) T\<rparr>) (units u)
      = subtracted"
    unfolding subtracted_def
  proof (rule updateFirst_cong)
    fix x assume "x \<in> set (units u)"
    from abs_member_le_sum_list [OF this, where f = quantity]
    have "\<bar>quantity x\<bar> \<le> BU" by (simp add: BU_def)
    then have "\<bar>quantity x - T\<bar> < 2 ^ 53" using Tabs B BN0 by linarith
    then show "x\<lparr>quantity := numSub (quantity x) T\<rparr> = x\<lparr>quantity := quantity x - T\<rparr>"
      by (simp add: numSub_safe)
  qed
  have sub_bound: "\<bar>quantity x\<bar> \<le> BU + BN" if "x \<in> set subtracted" for x
  proof -
    from updateFirst_member [OF that [unfolded subtracted_def]]
    consider "x \<in> set (units u)"
      | y where "y \<in> set (units u)" "x = y\<lparr>quantity := quantity y - T\<rparr>"
      by blast
    then show ?thesis
    proof cases
      case 1
      from abs_member_le_sum_list [OF this, where f = quantity]
      show ?thesis using BN0 by (simp add: BU_def)
    next
      case 2
      from abs_member_le_sum_list [OF 2(1), where f = quantity]
      have "\<bar>quantity y\<bar> \<le> BU" by (simp add: BU_def)
      then show ?thesis using Tabs 2(2) by simp
    qed
  qed
  define updated where "updated =
    map (\<lambda>unit. unit\<lparr>quantity := quantity unit + gain quantity newUnits unit\<rparr>) subtracted"
  have upd: "map (\<lambda>unit.
                 case find (\<lambda>newUnit. ptype newUnit = ptype unit
                                \<and> plevel newUnit = plevel unit) newUnits of
                   None \<Rightarrow> unit
                 | Some newUnit \<Rightarrow>
                     unit\<lparr>quantity := numAdd (quantity unit) (quantity newUnit)\<rparr>)
               subtracted = updated"
    unfolding updated_def
  proof (rule map_cong [OF refl])
    fix unit :: playerUnit assume m: "unit \<in> set subtracted"
    show "(case find (\<lambda>newUnit. ptype newUnit = ptype unit
                        \<and> plevel newUnit = plevel unit) newUnits of
             None \<Rightarrow> unit
           | Some newUnit \<Rightarrow> unit\<lparr>quantity := numAdd (quantity unit) (quantity newUnit)\<rparr>)
          = unit\<lparr>quantity := quantity unit + gain quantity newUnits unit\<rparr>"
    proof (cases "find (\<lambda>newUnit. ptype newUnit = ptype unit
                          \<and> plevel newUnit = plevel unit) newUnits")
      case None
      then show ?thesis by (simp add: gain_def)
    next
      case (Some n)
      then have g: "gain quantity newUnits unit = quantity n" by (simp add: gain_def)
      have "\<bar>quantity n\<bar> \<le> BN"
        using gain_member_bound [of newUnits unit] g by (simp add: BN_def)
      then have "\<bar>quantity unit + quantity n\<bar> < 2 ^ 53"
        using sub_bound [OF m] B by linarith
      then show ?thesis using Some g by (simp add: numAdd_safe)
    qed
  qed
  have keys_sub: "map unitKey subtracted = map unitKey (units u)"
    unfolding subtracted_def by (rule updateFirst_keys)
  have "map unitKey updated = map unitKey subtracted"
    unfolding updated_def by (induction subtracted) (simp_all add: unitKey_def)
  then have "unitKey ` set updated = unitKey ` set (units u)"
    using keys_sub by (metis list.set_map)
  then have added: "filter (\<lambda>newUnit. find (\<lambda>unit. ptype unit = ptype newUnit
                                 \<and> plevel unit = plevel newUnit) updated = None) newUnits
      = filter (\<lambda>n. unitKey n \<notin> unitKey ` set (units u)) newUnits"
    by (simp add: find_match_None)
  have found: "find (\<lambda>unit. ptype unit = ''CITIZEN'') (units u) \<noteq> None"
    using assms(1) by (auto simp: find_None_iff)
  have "trainedUnits newUnits (units u)
          = updated @ filter (\<lambda>n. unitKey n \<notin> unitKey ` set (units u)) newUnits"
    by (simp add: trainedUnits_def updated_def subtracted_def T_def)
  then show ?thesis
    using found by (auto simp: trainNewUnits_def Let_def total sub upd added)
qed

lemma updateFirst_quantity:
  assumes "\<exists>x\<in>set xs. P x"
  shows "sum_list (map quantity (updateFirst P (\<lambda>c. c\<lparr>quantity := quantity c - t\<rparr>) xs))
           = sum_list (map quantity xs) - t"
  using assms by (induction xs) auto

lemma updateFirst_abs_quantity:
  "(\<Sum>x\<leftarrow>updateFirst P (\<lambda>c. c\<lparr>quantity := quantity c - t\<rparr>) xs. \<bar>quantity x\<bar>)
     \<le> (\<Sum>x\<leftarrow>xs. \<bar>quantity x\<bar>) + \<bar>t\<bar>"
  by (induction xs) auto

lemma updateFirst_nth:
  assumes "i < length xs"
  shows "updateFirst P f xs ! i
           = (if P (xs ! i) \<and> (\<forall>j<i. \<not> P (xs ! j)) then f (xs ! i) else xs ! i)"
  using assms
proof (induction xs arbitrary: i)
  case Nil
  then show ?case by simp
next
  case (Cons x xs)
  show ?case
  proof (cases i)
    case 0
    then show ?thesis by simp
  next
    case (Suc k)
    then have k: "k < length xs" using Cons.prems by simp
    have all: "(\<forall>j<Suc k. \<not> P ((x # xs) ! j)) \<longleftrightarrow> \<not> P x \<and> (\<forall>j<k. \<not> P (xs ! j))"
      by (auto simp: less_Suc_eq_0_disj)
    show ?thesis
      using Cons.IH [OF k] by (simp only: Suc all) auto
  qed
qed

lemma find_match_distinct:
  assumes "distinct (map unitKey ns)" and "n \<in> set ns" and "unitKey n = unitKey unit"
  shows "find (\<lambda>a. ptype a = ptype unit \<and> plevel a = plevel unit) ns = Some n"
  using assms
proof (induction ns)
  case Nil
  then show ?case by simp
next
  case (Cons a ns)
  show ?case
  proof (cases "a = n")
    case True
    then show ?thesis using Cons.prems(3) by (simp add: unitKey_def)
  next
    case False
    then have n: "n \<in> set ns" using Cons.prems(2) by simp
    then have "unitKey a \<noteq> unitKey n"
      using Cons.prems(1) by (metis distinct.simps(2) imageI list.set_map list.simps(9))
    then have "\<not> (ptype a = ptype unit \<and> plevel a = plevel unit)"
      using Cons.prems(3) by (auto simp: unitKey_def)
    moreover have "find (\<lambda>a. ptype a = ptype unit \<and> plevel a = plevel unit) ns = Some n"
      using Cons.IH n Cons.prems by simp
    ultimately show ?thesis by auto
  qed
qed

lemma gain_distinct:
  assumes "distinct (map unitKey newUnits)"
  shows "gain w newUnits unit
           = sum_list (map w (filter (\<lambda>n. unitKey n = unitKey unit) newUnits))"
  using assms
proof (induction newUnits)
  case Nil
  show ?case by (simp add: gain_def)
next
  case (Cons n ns)
  show ?case
  proof (cases "unitKey n = unitKey unit")
    case True
    then have "unitKey unit \<notin> unitKey ` set ns" using Cons.prems by auto
    then have "\<forall>m\<in>set ns. unitKey m \<noteq> unitKey unit"
      by (metis imageI)
    then have "filter (\<lambda>n. unitKey n = unitKey unit) ns = []"
      by (simp add: filter_empty_conv)
    then show ?thesis using True by (simp add: gain_def unitKey_def)
  next
    case False
    then have "gain w (n # ns) unit = gain w ns unit"
      by (auto simp: gain_def unitKey_def)
    then show ?thesis using False Cons by simp
  qed
qed

lemma sum_filter_disj:
  fixes f :: "'a \<Rightarrow> int"
  assumes "\<And>x. x \<in> set xs \<Longrightarrow> \<not> (P x \<and> Q x)"
  shows "sum_list (map f (filter (\<lambda>x. P x \<or> Q x) xs))
           = sum_list (map f (filter P xs)) + sum_list (map f (filter Q xs))"
  using assms by (induction xs) auto

lemma gains_are_matched_entries:
  assumes "distinct (map unitKey us)" and "distinct (map unitKey newUnits)"
  shows "sum_list (map (gain w newUnits) us)
           = sum_list (map w (filter (\<lambda>n. unitKey n \<in> unitKey ` set us) newUnits))"
  using assms(1)
proof (induction us)
  case Nil
  show ?case by simp
next
  case (Cons a us)
  have fresh: "unitKey a \<notin> unitKey ` set us" and d: "distinct (map unitKey us)"
    using Cons.prems by auto
  have "filter (\<lambda>n. unitKey n \<in> unitKey ` set (a # us)) newUnits
          = filter (\<lambda>n. unitKey n = unitKey a \<or> unitKey n \<in> unitKey ` set us) newUnits"
    by (rule filter_cong) auto
  then have "sum_list (map w (filter (\<lambda>n. unitKey n \<in> unitKey ` set (a # us)) newUnits))
     = sum_list (map w (filter (\<lambda>n. unitKey n = unitKey a) newUnits))
       + sum_list (map w (filter (\<lambda>n. unitKey n \<in> unitKey ` set us) newUnits))"
    using fresh by (simp add: sum_filter_disj)
  then show ?case
    using Cons.IH [OF d] gain_distinct [OF assms(2), of w a] by simp
qed

lemma sum_filter_split:
  fixes f :: "'a \<Rightarrow> int"
  shows "sum_list (map f xs)
           = sum_list (map f (filter P xs)) + sum_list (map f (filter (\<lambda>x. \<not> P x) xs))"
  by (induction xs) auto

text \<open>
  With no type and level repeated among the units or in the order, the gains of the
  units and the appended entries make up the order, whatever the weight.
\<close>

lemma trainedUnits_gains:
  assumes "distinct (map unitKey us)" and "distinct (map unitKey newUnits)"
  defines "subtracted \<equiv> updateFirst (\<lambda>unit. ptype unit = ''CITIZEN'')
          (\<lambda>citizenUnits.
             citizenUnits\<lparr>quantity := quantity citizenUnits - (\<Sum>n\<leftarrow>newUnits. quantity n)\<rparr>)
          us"
  shows "sum_list (map (gain w newUnits) subtracted)
           + sum_list (map w (filter (\<lambda>n. unitKey n \<notin> unitKey ` set us) newUnits))
         = sum_list (map w newUnits)"
proof -
  have keys: "map unitKey subtracted = map unitKey us"
    unfolding subtracted_def by (rule updateFirst_keys)
  then have d: "distinct (map unitKey subtracted)" using assms(1) by simp
  have set_keys: "unitKey ` set subtracted = unitKey ` set us"
    using keys by (metis list.set_map)
  from gains_are_matched_entries [OF d assms(2), of w]
  have "sum_list (map (gain w newUnits) subtracted)
          = sum_list (map w (filter (\<lambda>n. unitKey n \<in> unitKey ` set us) newUnits))"
    by (simp add: set_keys)
  then show ?thesis
    using sum_filter_split [of w newUnits "\<lambda>n. unitKey n \<in> unitKey ` set us"] by simp
qed

lemma trainedUnits_quantity:
  assumes "\<exists>unit\<in>set us. ptype unit = ''CITIZEN''"
    and "distinct (map unitKey us)" and "distinct (map unitKey newUnits)"
  shows "sum_list (map quantity (trainedUnits newUnits us)) = sum_list (map quantity us)"
proof -
  let ?T = "\<Sum>n\<leftarrow>newUnits. quantity n"
  let ?sub = "updateFirst (\<lambda>unit. ptype unit = ''CITIZEN'')
          (\<lambda>citizenUnits. citizenUnits\<lparr>quantity := quantity citizenUnits - ?T\<rparr>) us"
  have "sum_list (map quantity (trainedUnits newUnits us))
          = sum_list (map quantity ?sub) + sum_list (map (gain quantity newUnits) ?sub)
            + sum_list (map quantity (filter (\<lambda>n. unitKey n \<notin> unitKey ` set us) newUnits))"
    by (simp add: trainedUnits_def o_def sum_list_addf)
  also have "\<dots> = sum_list (map quantity ?sub) + ?T"
    using trainedUnits_gains [OF assms(2,3), of quantity] by simp
  also have "sum_list (map quantity ?sub) = sum_list (map quantity us) - ?T"
    using assms(1) by (rule updateFirst_quantity)
  finally show ?thesis by simp
qed

lemma trainedUnits_abs_quantity:
  assumes "distinct (map unitKey us)" and "distinct (map unitKey newUnits)"
  shows "(\<Sum>x\<leftarrow>trainedUnits newUnits us. \<bar>quantity x\<bar>)
           \<le> (\<Sum>x\<leftarrow>us. \<bar>quantity x\<bar>) + 2 * (\<Sum>n\<leftarrow>newUnits. \<bar>quantity n\<bar>)"
proof -
  let ?T = "\<Sum>n\<leftarrow>newUnits. quantity n"
  let ?A = "\<lambda>n. \<bar>quantity n\<bar>"
  let ?sub = "updateFirst (\<lambda>unit. ptype unit = ''CITIZEN'')
          (\<lambda>citizenUnits. citizenUnits\<lparr>quantity := quantity citizenUnits - ?T\<rparr>) us"
  have "(\<Sum>x\<leftarrow>map (\<lambda>unit. unit\<lparr>quantity := quantity unit + gain quantity newUnits unit\<rparr>)
                ?sub. \<bar>quantity x\<bar>)
          \<le> (\<Sum>x\<leftarrow>?sub. \<bar>quantity x\<bar> + gain ?A newUnits x)"
    unfolding map_map o_def
    by (rule sum_list_mono) (simp add: gain_abs [symmetric])
  also have "\<dots> = (\<Sum>x\<leftarrow>?sub. \<bar>quantity x\<bar>) + sum_list (map (gain ?A newUnits) ?sub)"
    by (simp add: sum_list_addf)
  finally have "(\<Sum>x\<leftarrow>trainedUnits newUnits us. \<bar>quantity x\<bar>)
          \<le> (\<Sum>x\<leftarrow>?sub. \<bar>quantity x\<bar>) + (sum_list (map (gain ?A newUnits) ?sub)
            + sum_list (map ?A (filter (\<lambda>n. unitKey n \<notin> unitKey ` set us) newUnits)))"
    by (simp add: trainedUnits_def)
  also have "\<dots> = (\<Sum>x\<leftarrow>?sub. \<bar>quantity x\<bar>) + sum_list (map ?A newUnits)"
    using trainedUnits_gains [OF assms, of ?A] by simp
  also have "\<dots> \<le> (\<Sum>x\<leftarrow>us. \<bar>quantity x\<bar>) + \<bar>?T\<bar> + sum_list (map ?A newUnits)"
    using updateFirst_abs_quantity [of "\<lambda>unit. ptype unit = ''CITIZEN''" ?T us] by simp
  also have "\<dots> \<le> (\<Sum>x\<leftarrow>us. \<bar>quantity x\<bar>) + 2 * sum_list (map ?A newUnits)"
    using abs_sum_list_le [where f = quantity and xs = newUnits] by simp
  finally show ?thesis .
qed

lemma trainNewUnits_population_distinct:
  assumes "\<exists>unit\<in>set (units u). ptype unit = ''CITIZEN''"
    and "distinct (map unitKey (units u))"
    and "distinct (map unitKey newUnits)"
    and "(\<Sum>unit\<leftarrow>units u. \<bar>quantity unit\<bar>) + 2 * (\<Sum>n\<leftarrow>newUnits. \<bar>quantity n\<bar>) < 2 ^ 53"
  shows "\<exists>u' call. trainNewUnits newUnits u = Inr (u', call) \<and> population u' = population u"
proof -
  let ?u' = "u\<lparr>units := trainedUnits newUnits (units u)\<rparr>"
  have "0 \<le> (\<Sum>n\<leftarrow>newUnits. \<bar>quantity n\<bar>)" by (rule sum_abs_nonneg)
  then have before: "(\<Sum>unit\<leftarrow>units u. \<bar>quantity unit\<bar>) < 2 ^ 53"
    using assms(4) by linarith
  have after: "(\<Sum>unit\<leftarrow>units ?u'. \<bar>quantity unit\<bar>) < 2 ^ 53"
    using trainedUnits_abs_quantity [OF assms(2,3)] assms(4) by simp
  have "population ?u' = sum_list (map quantity (trainedUnits newUnits (units u)))"
    using population_sum_list [OF after] by simp
  also have "\<dots> = sum_list (map quantity (units u))"
    by (rule trainedUnits_quantity [OF assms(1-3)])
  also have "\<dots> = population u"
    using population_sum_list [OF before] by simp
  finally show ?thesis
    using trainNewUnits_safe [OF assms(1,4)] by blast
qed

lemma trainNewUnits_merge_distinct:
  assumes "\<exists>unit\<in>set (units u). ptype unit = ''CITIZEN''"
    and "distinct (map unitKey newUnits)"
    and "(\<Sum>unit\<leftarrow>units u. \<bar>quantity unit\<bar>) + 2 * (\<Sum>n\<leftarrow>newUnits. \<bar>quantity n\<bar>) < 2 ^ 53"
  defines "newTotal \<equiv> sum_list (map quantity newUnits)"
  defines "paid \<equiv> \<lambda>i. if ptype (units u ! i) = ''CITIZEN''
                          \<and> (\<forall>j<i. ptype (units u ! j) \<noteq> ''CITIZEN'') then newTotal else 0"
  shows "\<exists>us. trainNewUnits newUnits u = Inr (u\<lparr>units := us\<rparr>, SetUnits (userId u) us)
          \<and> length us = length (units u)
               + length (filter (\<lambda>n. unitKey n \<notin> unitKey ` set (units u)) newUnits)
          \<and> (\<forall>i<length (units u). \<forall>n\<in>set newUnits. unitKey n = unitKey (units u ! i) \<longrightarrow>
                us ! i = (units u ! i)\<lparr>quantity := quantity (units u ! i) - paid i + quantity n\<rparr>)
          \<and> (\<forall>i<length (units u). unitKey (units u ! i) \<notin> unitKey ` set newUnits \<longrightarrow>
                us ! i = (units u ! i)\<lparr>quantity := quantity (units u ! i) - paid i\<rparr>)
          \<and> drop (length (units u)) us
               = filter (\<lambda>n. unitKey n \<notin> unitKey ` set (units u)) newUnits"
proof -
  define subtracted where "subtracted =
    updateFirst (\<lambda>unit. ptype unit = ''CITIZEN'')
      (\<lambda>citizenUnits. citizenUnits\<lparr>quantity := quantity citizenUnits - newTotal\<rparr>) (units u)"
  define merge :: "playerUnit \<Rightarrow> playerUnit" where
    "merge = (\<lambda>unit. unit\<lparr>quantity := quantity unit + gain quantity newUnits unit\<rparr>)"
  define updated where "updated = map merge subtracted"
  define added where "added = filter (\<lambda>n. unitKey n \<notin> unitKey ` set (units u)) newUnits"
  have tr: "trainedUnits newUnits (units u) = updated @ added"
    by (simp add: trainedUnits_def updated_def merge_def subtracted_def added_def newTotal_def)
  have run: "trainNewUnits newUnits u
               = Inr (u\<lparr>units := updated @ added\<rparr>, SetUnits (userId u) (updated @ added))"
    using trainNewUnits_safe [OF assms(1,3)] by (simp add: tr)
  have len_sub: "length subtracted = length (units u)"
    by (simp add: subtracted_def updateFirst_length)
  have len_upd: "length updated = length (units u)"
    by (simp add: updated_def len_sub)
  have sub_nth: "subtracted ! i = (units u ! i)\<lparr>quantity := quantity (units u ! i) - paid i\<rparr>"
    if "i < length (units u)" for i
    using updateFirst_nth [OF that, of "\<lambda>unit. ptype unit = ''CITIZEN''"
        "\<lambda>citizenUnits. citizenUnits\<lparr>quantity := quantity citizenUnits - newTotal\<rparr>"]
    by (auto simp: subtracted_def paid_def)
  have upd_nth: "updated ! i = merge (subtracted ! i)" if "i < length (units u)" for i
    using that by (simp add: updated_def len_sub)
  have matched: "(updated @ added) ! i
      = (units u ! i)\<lparr>quantity := quantity (units u ! i) - paid i + quantity n\<rparr>"
    if i: "i < length (units u)" and n: "n \<in> set newUnits"
      and k: "unitKey n = unitKey (units u ! i)" for i n
  proof -
    have "unitKey n = unitKey (subtracted ! i)"
      using k by (simp add: sub_nth [OF i] unitKey_def)
    from find_match_distinct [OF assms(2) n this]
    have "merge (subtracted ! i)
            = (subtracted ! i)\<lparr>quantity := quantity (subtracted ! i) + quantity n\<rparr>"
      by (simp add: merge_def gain_def)
    then show ?thesis
      using i by (simp add: nth_append len_upd upd_nth sub_nth)
  qed
  have unmatched: "(updated @ added) ! i
      = (units u ! i)\<lparr>quantity := quantity (units u ! i) - paid i\<rparr>"
    if i: "i < length (units u)" and k: "unitKey (units u ! i) \<notin> unitKey ` set newUnits" for i
  proof -
    have "unitKey (subtracted ! i) \<notin> unitKey ` set newUnits"
      using k by (simp add: sub_nth [OF i] unitKey_def)
    then have "find (\<lambda>newUnit. ptype newUnit = ptype (subtracted ! i)
                     \<and> plevel newUnit = plevel (subtracted ! i)) newUnits = None"
      by (simp add: find_match_None)
    then have "merge (subtracted ! i) = subtracted ! i"
      by (simp add: merge_def gain_def)
    then show ?thesis
      using i by (simp add: nth_append len_upd upd_nth sub_nth)
  qed
  have "length (updated @ added) = length (units u)
          + length (filter (\<lambda>n. unitKey n \<notin> unitKey ` set (units u)) newUnits)"
    by (simp add: len_upd added_def)
  moreover have "drop (length (units u)) (updated @ added)
          = filter (\<lambda>n. unitKey n \<notin> unitKey ` set (units u)) newUnits"
    by (simp add: len_upd added_def)
  ultimately show ?thesis
    using run matched unmatched by blast
qed

text \<open>
  C3. A user with 10 citizens and 4 level-1 workers trains an order that names the
  level-1 worker twice, with quantities 1 and 2. The citizens are lowered by the total 3,
  but the worker unit is raised by 1 only, the quantity of the first entry that matches
  it: the second entry, of quantity 2, matches the unit as well and adds nothing.
\<close>

theorem trainNewUnits_repeated_entry:
  "trainNewUnits exampleOrder exampleUser =
     Inr (exampleUser\<lparr>units := [\<lparr>ptype = ''CITIZEN'', plevel = 1, quantity = 7\<rparr>,
                                  \<lparr>ptype = ''WORKER'', plevel = 1, quantity = 5\<rparr>]\<rparr>,
          SetUnits 1 [\<lparr>ptype = ''CITIZEN'', plevel = 1, quantity = 7\<rparr>,
                      \<lparr>ptype = ''WORKER'', plevel = 1, quantity = 5\<rparr>])"
  by (simp add: trainNewUnits_def exampleOrder_def exampleUser_def Let_def
      numAdd_safe numSub_safe)

text \<open>
  C8. On the same input the population is 14 before the training and 12 after it: the
  citizens pay for both entries of the order and the workers receive the first only.
\<close>

theorem trainNewUnits_population_lost:
  "population exampleUser = 14
   \<and> (\<exists>u' call. trainNewUnits exampleOrder exampleUser = Inr (u', call)
         \<and> population u' = 12)"
  by (simp add: trainNewUnits_def exampleOrder_def exampleUser_def population_def Let_def
      numAdd_safe numSub_safe)

end
